theory Spec2Isabelle
  imports Main "HOL-Library.Word" "HOL-Library.Sublist"
begin

section \<open>The API client (package redskyapi)\<close>

text \<open>
  The client wraps \<^verbatim>\<open>net/http\<close>. What the library and the network do is a parameter of the
  model: a round tripper is a function from the request to either an error or a response,
  and a response says what reading and closing its body will give, and when.
\<close>

type_synonym byte = "8 word"

text \<open>Go \<^verbatim>\<open>error\<close> values; a nil error is \<open>None\<close> of \<open>error option\<close>.\<close>

datatype error = Canceled | DeadlineExceeded | ErrorString string

text \<open>
  A \<^verbatim>\<open>context.Context\<close>, as far as \<^verbatim>\<open>Do\<close> looks at it: the instant at which the channel
  returned by \<^verbatim>\<open>Done()\<close> is closed (\<open>None\<close>: never, as for \<^verbatim>\<open>context.Background()\<close>), and
  the error \<^verbatim>\<open>Err()\<close> returns from then on. Instants are nanoseconds on one clock, which
  starts when \<^verbatim>\<open>Do\<close> calls \<^verbatim>\<open>c.client.Do\<close>. A nil context is \<open>None\<close> of \<open>Context option\<close>.
\<close>

record Context =
  done_at :: "nat option"
  cause :: error

text \<open>\<^verbatim>\<open>ctx.Err()\<close>: nil while \<^verbatim>\<open>Done\<close> is open, the non-nil cause once it is closed.\<close>

definition Err :: "Context \<Rightarrow> bool \<Rightarrow> error option" where
  "Err ctx closed = (if closed then Some (cause ctx) else None)"

record URL =
  Scheme :: string
  Host :: string
  Path :: string

record Request =
  Method :: string
  Target :: "URL option"
  ctx :: "Context option"

text \<open>\<^verbatim>\<open>req.WithContext(ctx)\<close>: a shallow copy of the request with its context changed.\<close>

definition WithContext :: "Request \<Rightarrow> Context \<Rightarrow> Request" where
  "WithContext req c = req\<lparr>ctx := Some c\<rparr>"

text \<open>
  A response, as the server and the network make it: \<open>read_ends\<close> is the instant at which
  reading the body to its end would return if nothing cut it short (\<open>None\<close>: never, the
  server stalls), \<open>read_err\<close> the error of that read, \<open>read_body\<close> the bytes
  \<^verbatim>\<open>ioutil.ReadAll(resp.Body)\<close> hands back, \<open>close_err\<close> the result of the first
  \<^verbatim>\<open>resp.Body.Close()\<close>.
\<close>

record Response =
  StatusCode :: nat
  read_body :: "byte list option"
  read_err :: "error option"
  read_ends :: "nat option"
  close_err :: "error option"

type_synonym RoundTripper = "Request \<Rightarrow> error + Response"

record http_Client =
  Transport :: "RoundTripper option"
  Timeout :: nat

text \<open>
  \<^verbatim>\<open>http.Client.Do\<close>: one exchange through the client's transport, the default transport
  \<open>dflt\<close> when the client has none.
\<close>

definition http_Client_Do :: "RoundTripper \<Rightarrow> http_Client \<Rightarrow> Request \<Rightarrow> error + Response" where
  "http_Client_Do dflt cl req = (case Transport cl of None \<Rightarrow> dflt req | Some rt \<Rightarrow> rt req)"

text \<open>
  \<^verbatim>\<open>net/http\<close> cuts an exchange short, the reading of the response body included, when the
  context of the request is done or when the client's \<^verbatim>\<open>Timeout\<close> (counted from the call,
  zero meaning none) has passed. \<open>abort_at\<close> is the earlier of the two instants for a
  request sent through a client, with the error the cut read then reports.
\<close>

definition abort_at :: "http_Client \<Rightarrow> Request \<Rightarrow> (nat \<times> error) option" where
  "abort_at cl req =
     (let cancelled =
            (case ctx req of
               None \<Rightarrow> None
             | Some x \<Rightarrow> (case done_at x of None \<Rightarrow> None | Some t \<Rightarrow> Some (t, cause x)));
          timed_out =
            (if Timeout cl = 0 then None
             else Some (Timeout cl, ErrorString ''Client.Timeout exceeded while reading body''))
      in case cancelled of
           None \<Rightarrow> timed_out
         | Some a \<Rightarrow>
             (case timed_out of
                None \<Rightarrow> Some a
              | Some b \<Rightarrow> if fst a \<le> fst b then Some a else Some b))"

text \<open>
  \<^verbatim>\<open>ioutil.ReadAll(resp.Body)\<close> for the response to a request sent through a client: the
  instant at which the call returns, with its two results, or \<open>None\<close> when it never
  returns. A read that is cut short returns one instant after the cut, with the cut's
  error; a read that has ended by then returns what the response says.
\<close>

definition ReadAll ::
    "http_Client \<Rightarrow> Request \<Rightarrow> Response \<Rightarrow> (nat \<times> byte list option \<times> error option) option" where
  "ReadAll cl req resp =
     (case abort_at cl req of
        None \<Rightarrow>
          (case read_ends resp of
             None \<Rightarrow> None
           | Some e \<Rightarrow> Some (e, read_body resp, read_err resp))
      | Some a \<Rightarrow>
          (case read_ends resp of
             None \<Rightarrow> Some (Suc (fst a), read_body resp, Some (snd a))
           | Some e \<Rightarrow>
               if e \<le> Suc (fst a) then Some (e, read_body resp, read_err resp)
               else Some (Suc (fst a), read_body resp, Some (snd a))))"


text \<open>
  The \<^verbatim>\<open>Config\<close> interface is declared elsewhere in the package; the client uses two of its
  methods, both returning a value and an error, which are taken as they come.
\<close>

record Config =
  Authorize :: "Context option \<Rightarrow> RoundTripper option \<Rightarrow> RoundTripper option \<times> error option"
  ExperimentsURL :: "string \<Rightarrow> URL option \<times> error option"

record httpClient =
  config :: Config
  client :: http_Client

definition second :: nat where
  "second = 1000000000"

text \<open>\<^verbatim>\<open>NewClient\<close>: authorizes the transport, then checks \<^verbatim>\<open>ExperimentsURL("")\<close> only.\<close>

definition NewClient :: "Config \<Rightarrow> Context option \<Rightarrow> RoundTripper option \<Rightarrow> error + httpClient" where
  "NewClient cfg c transport =
     (let hc = \<lparr>config = cfg, client = \<lparr>Transport = None, Timeout = 10 * second\<rparr>\<rparr>;
          (tr, err) = Authorize cfg c transport;
          hc = hc\<lparr>client := (client hc)\<lparr>Transport := tr\<rparr>\<rparr>
      in case err of
           Some e \<Rightarrow> Inl e
         | None \<Rightarrow>
             (case snd (ExperimentsURL cfg []) of
                Some e \<Rightarrow> Inl e
              | None \<Rightarrow> Inr hc))"

text \<open>\<^verbatim>\<open>httpClient.URL\<close>: the URL of \<^verbatim>\<open>ExperimentsURL\<close>, its error dropped.\<close>

definition URL :: "httpClient \<Rightarrow> string \<Rightarrow> URL option" where
  "URL c ep = (let (u, _) = ExperimentsURL (config c) ep in u)"

text \<open>
  What the Go runtime decides: the instant at which the goroutine of \<^verbatim>\<open>Do\<close> enters its
  \<^verbatim>\<open>select\<close>, and the case it takes when both are ready.
\<close>

datatype select_case = CtxDone | ReadDone

record scheduler =
  select_at :: nat
  tie :: select_case

text \<open>
  The \<^verbatim>\<open>select\<close> of \<^verbatim>\<open>Do\<close> has two receive cases. A channel closed before the \<^verbatim>\<open>select\<close> is
  entered is ready on entry. The \<^verbatim>\<open>select\<close> takes the case that is ready first; when both
  are ready at once (on entry, or at one instant later) the runtime chooses. A channel that
  is never closed is never ready, and with two such channels the \<^verbatim>\<open>select\<close> blocks for
  ever, which is \<open>None\<close>.
\<close>

definition select :: "scheduler \<Rightarrow> nat option \<Rightarrow> nat option \<Rightarrow> select_case option" where
  "select sched ctx_done body_done =
     (case ctx_done of
        None \<Rightarrow> (case body_done of None \<Rightarrow> None | Some r \<Rightarrow> Some ReadDone)
      | Some t \<Rightarrow>
          (case body_done of
             None \<Rightarrow> Some CtxDone
           | Some r \<Rightarrow>
               if max (select_at sched) t < max (select_at sched) r then Some CtxDone
               else if max (select_at sched) r < max (select_at sched) t then Some ReadDone
               else Some (tie sched)))"

text \<open>
  What a call of \<^verbatim>\<open>Do\<close> comes to: it returns its three results, it panics, or it blocks for
  ever. The second component of the model's result lists the requests handed to
  \<^verbatim>\<open>c.client.Do\<close>. The goroutine reads the body of the response to the request that was
  sent, and closes \<open>done\<close> when \<^verbatim>\<open>ReadAll\<close> returns. In the \<^verbatim>\<open>ctx.Done()\<close> case \<^verbatim>\<open>Do\<close> first
  waits for \<open>done\<close>, so it blocks if the read never returns; the error of the read is then
  overwritten by that of \<^verbatim>\<open>Close\<close>. The deferred second \<^verbatim>\<open>Close\<close> returns nothing to the
  caller. With a nil context the \<^verbatim>\<open>select\<close> calls \<^verbatim>\<open>Done\<close> on a nil interface, which panics.
\<close>

datatype do_result =
  Return "Response option" "byte list option" "error option"
| Panic
| Blocked

definition Do :: "RoundTripper \<Rightarrow> scheduler \<Rightarrow> httpClient \<Rightarrow> Context option \<Rightarrow> Request
    \<Rightarrow> do_result \<times> Request list" where
  "Do dflt sched c cx req0 =
     (let req = (case cx of None \<Rightarrow> req0 | Some x \<Rightarrow> WithContext req0 x)
      in case http_Client_Do dflt (client c) req of
           Inl err \<Rightarrow> (Return None None (Some err), [req])
         | Inr resp \<Rightarrow>
             (case cx of
                None \<Rightarrow> (Panic, [req])
              | Some x \<Rightarrow>
                  (let reading = ReadAll (client c) req resp
                   in case select sched (done_at x) (map_option fst reading) of
                        None \<Rightarrow> (Blocked, [req])
                      | Some CtxDone \<Rightarrow>
                          (case reading of
                             None \<Rightarrow> (Blocked, [req])
                           | Some (r, body, rerr) \<Rightarrow>
                               (let err = close_err resp;
                                    err = (case err of None \<Rightarrow> Err x True | Some e \<Rightarrow> Some e)
                                in (Return (Some resp) body err, [req])))
                      | Some ReadDone \<Rightarrow>
                          (case reading of
                             None \<Rightarrow> (Blocked, [req])
                           | Some (r, body, rerr) \<Rightarrow> (Return (Some resp) body rerr, [req])))))"

section \<open>The API types (package v1alpha1)\<close>

subsection \<open>Memory\<close>

text \<open>
  Deep copying is about which memory two values share, so every pointer and every slice of
  the model carries the address it points to, next to the contents found there: \<open>nil\<close>,
  or \<open>Ptr a v\<close> for the address \<open>a\<close> holding \<open>v\<close>. A slice is a pointer to its backing
  array, whose elements are the slice's (a slice cut out of a longer array is not
  modelled). Two pointers with one address are aliases. \<^verbatim>\<open>new\<close> and \<^verbatim>\<open>make\<close> take the next
  unused address from a counter that every allocating function receives and returns.
\<close>

type_synonym addr = nat

datatype 'a ptr = nil | Ptr addr 'a

type_synonym 'a slice = "'a list ptr"

type_synonym 'a alloc = "addr \<Rightarrow> 'a \<times> addr"

text \<open>A struct without pointers, slices or maps: \<^verbatim>\<open>*out = *in\<close> copies all of it.\<close>

definition assign :: "'a \<Rightarrow> 'a alloc" where
  "assign v n = (v, n)"

text \<open>\<^verbatim>\<open>if in != nil { *out = new(T); (*in).DeepCopyInto(*out) }\<close>, where \<open>out\<close> starts as \<open>in\<close>.\<close>

definition new_DeepCopyInto :: "('a \<Rightarrow> 'a alloc) \<Rightarrow> 'a ptr \<Rightarrow> 'a ptr alloc" where
  "new_DeepCopyInto f p n =
     (case p of
        nil \<Rightarrow> (nil, n)
      | Ptr a v \<Rightarrow> (let out = n; (v', n') = f v (Suc n) in (Ptr out v', n')))"

text \<open>\<^verbatim>\<open>if in != nil { *out = new(T); **out = **in }\<close>.\<close>

definition new_assign :: "'a ptr \<Rightarrow> 'a ptr alloc" where
  "new_assign p n = new_DeepCopyInto assign p n"

text \<open>\<^verbatim>\<open>for i := range *in { (*in)[i].DeepCopyInto(&(*out)[i]) }\<close>.\<close>

fun range_DeepCopyInto :: "('a \<Rightarrow> 'a alloc) \<Rightarrow> 'a list \<Rightarrow> 'a list alloc" where
  "range_DeepCopyInto f [] n = ([], n)"
| "range_DeepCopyInto f (x # xs) n =
     (let (y, n1) = f x n; (ys, n2) = range_DeepCopyInto f xs n1 in (y # ys, n2))"

text \<open>\<^verbatim>\<open>if in != nil { *out = make([]T, len(*in)); for i := range *in { ... } }\<close>.\<close>

definition make_range :: "('a \<Rightarrow> 'a alloc) \<Rightarrow> 'a slice \<Rightarrow> 'a slice alloc" where
  "make_range f s n = new_DeepCopyInto (range_DeepCopyInto f) s n"

text \<open>\<^verbatim>\<open>if in != nil { *out = make([]T, len(*in)); copy(*out, *in) }\<close>.\<close>

definition make_copy :: "'a slice \<Rightarrow> 'a slice alloc" where
  "make_copy s n = make_range assign s n"

text \<open>
  Every generated \<^verbatim>\<open>DeepCopy\<close> has one body, around the \<^verbatim>\<open>DeepCopyInto\<close> of its type:
  \<^verbatim>\<open>if in == nil { return nil }; out := new(T); in.DeepCopyInto(out); return out\<close>.
\<close>

definition DeepCopy :: "('a \<Rightarrow> 'a alloc) \<Rightarrow> 'a ptr \<Rightarrow> 'a ptr alloc" where
  "DeepCopy DeepCopyInto p n =
     (case p of
        nil \<Rightarrow> (nil, n)
      | Ptr a v \<Rightarrow> (let out = n; (v', n') = DeepCopyInto v (Suc n) in (Ptr out v', n')))"

text \<open>The addresses a value reaches, and the value with its addresses blanked.\<close>

fun addrs_ptr :: "('a \<Rightarrow> addr set) \<Rightarrow> 'a ptr \<Rightarrow> addr set" where
  "addrs_ptr A nil = {}"
| "addrs_ptr A (Ptr a v) = insert a (A v)"

fun strip_ptr :: "('a \<Rightarrow> 'a) \<Rightarrow> 'a ptr \<Rightarrow> 'a ptr" where
  "strip_ptr S nil = nil"
| "strip_ptr S (Ptr a v) = Ptr 0 (S v)"

definition addrs_list :: "('a \<Rightarrow> addr set) \<Rightarrow> 'a list \<Rightarrow> addr set" where
  "addrs_list A xs = \<Union> (set (map A xs))"

definition no_addrs :: "'a \<Rightarrow> addr set" where
  "no_addrs v = {}"

subsection \<open>Types of the Kubernetes libraries\<close>

text \<open>
  \<^verbatim>\<open>ObjectMeta\<close>, \<^verbatim>\<open>LabelSelector\<close>, \<^verbatim>\<open>JobTemplateSpec\<close>, \<^verbatim>\<open>Volume\<close>, \<^verbatim>\<open>VolumeMount\<close>,
  \<^verbatim>\<open>PolicyRule\<close> and \<^verbatim>\<open>Time\<close> are declared, with their own \<^verbatim>\<open>DeepCopyInto\<close>, in the
  Kubernetes libraries. The model keeps a value of such a type whole, and what memory it
  owns inside is the library's concern.
\<close>

datatype library_value = LibraryValue string

type_synonym TypeMeta = library_value
type_synonym ObjectMeta = library_value
type_synonym LabelSelector = library_value
type_synonym JobTemplateSpec = library_value
type_synonym Volume = library_value
type_synonym VolumeMount = library_value
type_synonym PolicyRule = library_value
type_synonym Time = library_value

definition library_DeepCopyInto :: "library_value \<Rightarrow> library_value alloc" where
  "library_DeepCopyInto v n = (v, n)"

type_synonym Duration = int

datatype IntOrString = FromInt int | FromString string

record ObjectReference =
  Kind :: string
  Namespace :: string
  Name :: string
  UID :: string
  APIVersion :: string
  ResourceVersion :: string
  FieldPath :: string

subsection \<open>Trial types\<close>

record ParameterSelector =
  Name :: string

record HelmValueSource =
  ParameterRef :: "ParameterSelector ptr"

record HelmValue =
  Name :: string
  ForceString :: bool
  Value :: IntOrString
  ValueFrom :: "HelmValueSource ptr"

record ConfigMapHelmValuesFromSource =
  Name :: string

record HelmValuesFromSource =
  ConfigMap :: "ConfigMapHelmValuesFromSource ptr"

record SetupTask =
  Name :: string
  Image :: string
  SkipCreate :: bool
  SkipDelete :: bool
  Command :: "string slice"
  Args :: "string slice"
  VolumeMounts :: "VolumeMount slice"
  HelmChart :: string
  HelmValues :: "HelmValue slice"
  HelmValuesFrom :: "HelmValuesFromSource slice"

record PatchOperation =
  TargetRef :: ObjectReference
  PatchType :: string
  Data :: "byte slice"
  AttemptsRemaining :: int

record Assignment =
  Name :: string
  Value :: int

record Value =
  Name :: string
  Value :: string
  Error :: string
  AttemptsRemaining :: int

text \<open>
  \<^verbatim>\<open>TrialConditionType\<close> and \<^verbatim>\<open>ConditionStatus\<close> are string types; the declared constants
  are these.
\<close>

type_synonym TrialConditionType = string

definition TrialComplete :: TrialConditionType where
  "TrialComplete = ''Complete''"

definition TrialFailed :: TrialConditionType where
  "TrialFailed = ''Failed''"

type_synonym ConditionStatus = string

definition ConditionTrue :: ConditionStatus where
  "ConditionTrue = ''True''"

definition ConditionFalse :: ConditionStatus where
  "ConditionFalse = ''False''"

definition ConditionUnknown :: ConditionStatus where
  "ConditionUnknown = ''Unknown''"

record TrialCondition =
  Type :: TrialConditionType
  Status :: ConditionStatus
  LastProbeTime :: Time
  LastTransitionTime :: Time
  Reason :: string
  Message :: string

text \<open>
  The declarations of \<^verbatim>\<open>TrialReadinessGate\<close> and \<^verbatim>\<open>ReadinessCheck\<close> are not part of the
  sources covered here; the fields are those their \<^verbatim>\<open>DeepCopyInto\<close> names.
\<close>

record TrialReadinessGate =
  Selector :: "LabelSelector ptr"
  ConditionTypes :: "string slice"

record ReadinessCheck =
  TargetRef :: ObjectReference
  Selector :: "LabelSelector ptr"
  ConditionTypes :: "string slice"
  LastCheckTime :: "Time ptr"

record TrialSpec =
  ExperimentRef :: "ObjectReference ptr"
  TargetNamespace :: string
  Assignments :: "Assignment slice"
  Selector :: "LabelSelector ptr"
  Template :: "JobTemplateSpec ptr"
  StartTimeOffset :: "Duration ptr"
  ApproximateRuntime :: "Duration ptr"
  TTLSecondsAfterFinished :: "int ptr"
  TTLSecondsAfterFailure :: "int ptr"
  ReadinessGates :: "TrialReadinessGate slice"
  PatchOperations :: "PatchOperation slice"
  ReadinessChecks :: "ReadinessCheck slice"
  Values :: "Value slice"
  SetupTasks :: "SetupTask slice"
  SetupVolumes :: "Volume slice"
  SetupServiceAccountName :: string
  SetupDefaultRules :: "PolicyRule slice"

record TrialStatus =
  Assignments :: string
  Values :: string
  StartTime :: "Time ptr"
  CompletionTime :: "Time ptr"
  Conditions :: "TrialCondition slice"

record Trial =
  TypeMeta :: TypeMeta
  ObjectMeta :: ObjectMeta
  Spec :: TrialSpec
  Status :: TrialStatus

subsection \<open>The generated deep copies\<close>

text \<open>
  Each \<^verbatim>\<open>DeepCopyInto\<close> starts with \<^verbatim>\<open>*out = *in\<close>, which leaves \<open>out\<close> sharing every pointer
  and slice of \<open>in\<close>, and then replaces the pointer and slice fields one by one, in the
  order of the generated file.
\<close>

definition Assignment_DeepCopyInto :: "Assignment \<Rightarrow> Assignment alloc" where
  "Assignment_DeepCopyInto inp n = assign inp n"

definition Value_DeepCopyInto :: "Value \<Rightarrow> Value alloc" where
  "Value_DeepCopyInto inp n = assign inp n"

definition ParameterSelector_DeepCopyInto :: "ParameterSelector \<Rightarrow> ParameterSelector alloc" where
  "ParameterSelector_DeepCopyInto inp n = assign inp n"

definition ConfigMapHelmValuesFromSource_DeepCopyInto ::
    "ConfigMapHelmValuesFromSource \<Rightarrow> ConfigMapHelmValuesFromSource alloc" where
  "ConfigMapHelmValuesFromSource_DeepCopyInto inp n = assign inp n"

definition HelmValueSource_DeepCopyInto :: "HelmValueSource \<Rightarrow> HelmValueSource alloc" where
  "HelmValueSource_DeepCopyInto inp n =
     (let out = inp;
          (p, n) = new_assign (ParameterRef inp) n; out = out\<lparr>ParameterRef := p\<rparr>
      in (out, n))"

definition HelmValue_DeepCopyInto :: "HelmValue \<Rightarrow> HelmValue alloc" where
  "HelmValue_DeepCopyInto inp n =
     (let out = inp;
          out = out\<lparr>HelmValue.Value := HelmValue.Value inp\<rparr>;
          (p, n) = new_DeepCopyInto HelmValueSource_DeepCopyInto (ValueFrom inp) n;
          out = out\<lparr>ValueFrom := p\<rparr>
      in (out, n))"

definition HelmValuesFromSource_DeepCopyInto ::
    "HelmValuesFromSource \<Rightarrow> HelmValuesFromSource alloc" where
  "HelmValuesFromSource_DeepCopyInto inp n =
     (let out = inp;
          (p, n) = new_assign (ConfigMap inp) n; out = out\<lparr>ConfigMap := p\<rparr>
      in (out, n))"

definition PatchOperation_DeepCopyInto :: "PatchOperation \<Rightarrow> PatchOperation alloc" where
  "PatchOperation_DeepCopyInto inp n =
     (let out = inp;
          out = out\<lparr>PatchOperation.TargetRef := PatchOperation.TargetRef inp\<rparr>;
          (d, n) = make_copy (Data inp) n; out = out\<lparr>Data := d\<rparr>
      in (out, n))"

definition SetupTask_DeepCopyInto :: "SetupTask \<Rightarrow> SetupTask alloc" where
  "SetupTask_DeepCopyInto inp n =
     (let out = inp;
          (c, n) = make_copy (Command inp) n; out = out\<lparr>Command := c\<rparr>;
          (a, n) = make_copy (Args inp) n; out = out\<lparr>Args := a\<rparr>;
          (v, n) = make_range library_DeepCopyInto (VolumeMounts inp) n;
          out = out\<lparr>VolumeMounts := v\<rparr>;
          (h, n) = make_range HelmValue_DeepCopyInto (HelmValues inp) n;
          out = out\<lparr>HelmValues := h\<rparr>;
          (f, n) = make_range HelmValuesFromSource_DeepCopyInto (HelmValuesFrom inp) n;
          out = out\<lparr>HelmValuesFrom := f\<rparr>
      in (out, n))"

definition TrialCondition_DeepCopyInto :: "TrialCondition \<Rightarrow> TrialCondition alloc" where
  "TrialCondition_DeepCopyInto inp n =
     (let out = inp;
          (p, n) = library_DeepCopyInto (LastProbeTime inp) n; out = out\<lparr>LastProbeTime := p\<rparr>;
          (t, n) = library_DeepCopyInto (LastTransitionTime inp) n;
          out = out\<lparr>LastTransitionTime := t\<rparr>
      in (out, n))"

definition TrialReadinessGate_DeepCopyInto :: "TrialReadinessGate \<Rightarrow> TrialReadinessGate alloc" where
  "TrialReadinessGate_DeepCopyInto inp n =
     (let out = inp;
          (s, n) = new_DeepCopyInto library_DeepCopyInto (TrialReadinessGate.Selector inp) n;
          out = out\<lparr>TrialReadinessGate.Selector := s\<rparr>;
          (c, n) = make_copy (TrialReadinessGate.ConditionTypes inp) n;
          out = out\<lparr>TrialReadinessGate.ConditionTypes := c\<rparr>
      in (out, n))"

definition ReadinessCheck_DeepCopyInto :: "ReadinessCheck \<Rightarrow> ReadinessCheck alloc" where
  "ReadinessCheck_DeepCopyInto inp n =
     (let out = inp;
          out = out\<lparr>ReadinessCheck.TargetRef := ReadinessCheck.TargetRef inp\<rparr>;
          (s, n) = new_DeepCopyInto library_DeepCopyInto (ReadinessCheck.Selector inp) n;
          out = out\<lparr>ReadinessCheck.Selector := s\<rparr>;
          (c, n) = make_copy (ReadinessCheck.ConditionTypes inp) n;
          out = out\<lparr>ReadinessCheck.ConditionTypes := c\<rparr>;
          (t, n) = DeepCopy library_DeepCopyInto (LastCheckTime inp) n;
          out = out\<lparr>LastCheckTime := t\<rparr>
      in (out, n))"

definition TrialSpec_DeepCopyInto :: "TrialSpec \<Rightarrow> TrialSpec alloc" where
  "TrialSpec_DeepCopyInto inp n =
     (let out = inp;
          (e, n) = new_assign (ExperimentRef inp) n; out = out\<lparr>ExperimentRef := e\<rparr>;
          (a, n) = make_copy (TrialSpec.Assignments inp) n;
          out = out\<lparr>TrialSpec.Assignments := a\<rparr>;
          (s, n) = new_DeepCopyInto library_DeepCopyInto (TrialSpec.Selector inp) n;
          out = out\<lparr>TrialSpec.Selector := s\<rparr>;
          (t, n) = new_DeepCopyInto library_DeepCopyInto (Template inp) n;
          out = out\<lparr>Template := t\<rparr>;
          (d, n) = new_assign (StartTimeOffset inp) n; out = out\<lparr>StartTimeOffset := d\<rparr>;
          (d, n) = new_assign (ApproximateRuntime inp) n; out = out\<lparr>ApproximateRuntime := d\<rparr>;
          (i, n) = new_assign (TTLSecondsAfterFinished inp) n;
          out = out\<lparr>TTLSecondsAfterFinished := i\<rparr>;
          (i, n) = new_assign (TTLSecondsAfterFailure inp) n;
          out = out\<lparr>TTLSecondsAfterFailure := i\<rparr>;
          (g, n) = make_range TrialReadinessGate_DeepCopyInto (ReadinessGates inp) n;
          out = out\<lparr>ReadinessGates := g\<rparr>;
          (p, n) = make_range PatchOperation_DeepCopyInto (PatchOperations inp) n;
          out = out\<lparr>PatchOperations := p\<rparr>;
          (c, n) = make_range ReadinessCheck_DeepCopyInto (ReadinessChecks inp) n;
          out = out\<lparr>ReadinessChecks := c\<rparr>;
          (v, n) = make_copy (TrialSpec.Values inp) n; out = out\<lparr>TrialSpec.Values := v\<rparr>;
          (k, n) = make_range SetupTask_DeepCopyInto (SetupTasks inp) n;
          out = out\<lparr>SetupTasks := k\<rparr>;
          (w, n) = make_range library_DeepCopyInto (SetupVolumes inp) n;
          out = out\<lparr>SetupVolumes := w\<rparr>;
          (r, n) = make_range library_DeepCopyInto (SetupDefaultRules inp) n;
          out = out\<lparr>SetupDefaultRules := r\<rparr>
      in (out, n))"

definition TrialStatus_DeepCopyInto :: "TrialStatus \<Rightarrow> TrialStatus alloc" where
  "TrialStatus_DeepCopyInto inp n =
     (let out = inp;
          (s, n) = DeepCopy library_DeepCopyInto (StartTime inp) n; out = out\<lparr>StartTime := s\<rparr>;
          (c, n) = DeepCopy library_DeepCopyInto (CompletionTime inp) n;
          out = out\<lparr>CompletionTime := c\<rparr>;
          (k, n) = make_range TrialCondition_DeepCopyInto (Conditions inp) n;
          out = out\<lparr>Conditions := k\<rparr>
      in (out, n))"

definition Trial_DeepCopyInto :: "Trial \<Rightarrow> Trial alloc" where
  "Trial_DeepCopyInto inp n =
     (let out = inp;
          out = out\<lparr>TypeMeta := TypeMeta inp\<rparr>;
          (m, n) = library_DeepCopyInto (ObjectMeta inp) n; out = out\<lparr>ObjectMeta := m\<rparr>;
          (s, n) = TrialSpec_DeepCopyInto (Spec inp) n; out = out\<lparr>Spec := s\<rparr>;
          (t, n) = TrialStatus_DeepCopyInto (Trial.Status inp) n; out = out\<lparr>Trial.Status := t\<rparr>
      in (out, n))"

definition Trial_DeepCopy :: "Trial ptr \<Rightarrow> Trial ptr alloc" where
  "Trial_DeepCopy inp n = DeepCopy Trial_DeepCopyInto inp n"

definition Value_DeepCopy :: "Value ptr \<Rightarrow> Value ptr alloc" where
  "Value_DeepCopy inp n = DeepCopy Value_DeepCopyInto inp n"

subsection \<open>Reachable addresses and structural equality\<close>

text \<open>
  For each type, the addresses reachable from a value, and the value with every address
  blanked. Two values are structurally equal when they agree up to their addresses,
  that is when their blanked forms are equal: the same fields, the same elements in the
  same order, nil where the other is nil.
\<close>

definition addrs_HelmValueSource :: "HelmValueSource \<Rightarrow> addr set" where
  "addrs_HelmValueSource v = addrs_ptr no_addrs (ParameterRef v)"

definition strip_HelmValueSource :: "HelmValueSource \<Rightarrow> HelmValueSource" where
  "strip_HelmValueSource v = v\<lparr>ParameterRef := strip_ptr id (ParameterRef v)\<rparr>"

definition addrs_HelmValue :: "HelmValue \<Rightarrow> addr set" where
  "addrs_HelmValue v = addrs_ptr addrs_HelmValueSource (ValueFrom v)"

definition strip_HelmValue :: "HelmValue \<Rightarrow> HelmValue" where
  "strip_HelmValue v = v\<lparr>ValueFrom := strip_ptr strip_HelmValueSource (ValueFrom v)\<rparr>"

definition addrs_HelmValuesFromSource :: "HelmValuesFromSource \<Rightarrow> addr set" where
  "addrs_HelmValuesFromSource v = addrs_ptr no_addrs (ConfigMap v)"

definition strip_HelmValuesFromSource :: "HelmValuesFromSource \<Rightarrow> HelmValuesFromSource" where
  "strip_HelmValuesFromSource v = v\<lparr>ConfigMap := strip_ptr id (ConfigMap v)\<rparr>"

definition addrs_PatchOperation :: "PatchOperation \<Rightarrow> addr set" where
  "addrs_PatchOperation v = addrs_ptr no_addrs (Data v)"

definition strip_PatchOperation :: "PatchOperation \<Rightarrow> PatchOperation" where
  "strip_PatchOperation v = v\<lparr>Data := strip_ptr id (Data v)\<rparr>"

definition addrs_SetupTask :: "SetupTask \<Rightarrow> addr set" where
  "addrs_SetupTask v =
     addrs_ptr no_addrs (Command v) \<union> addrs_ptr no_addrs (Args v) \<union>
     addrs_ptr no_addrs (VolumeMounts v) \<union>
     addrs_ptr (addrs_list addrs_HelmValue) (HelmValues v) \<union>
     addrs_ptr (addrs_list addrs_HelmValuesFromSource) (HelmValuesFrom v)"

definition strip_SetupTask :: "SetupTask \<Rightarrow> SetupTask" where
  "strip_SetupTask v =
     v\<lparr>Command := strip_ptr id (Command v), Args := strip_ptr id (Args v),
       VolumeMounts := strip_ptr id (VolumeMounts v),
       HelmValues := strip_ptr (map strip_HelmValue) (HelmValues v),
       HelmValuesFrom := strip_ptr (map strip_HelmValuesFromSource) (HelmValuesFrom v)\<rparr>"

definition addrs_TrialReadinessGate :: "TrialReadinessGate \<Rightarrow> addr set" where
  "addrs_TrialReadinessGate v =
     addrs_ptr no_addrs (TrialReadinessGate.Selector v) \<union>
     addrs_ptr no_addrs (TrialReadinessGate.ConditionTypes v)"

definition strip_TrialReadinessGate :: "TrialReadinessGate \<Rightarrow> TrialReadinessGate" where
  "strip_TrialReadinessGate v =
     v\<lparr>TrialReadinessGate.Selector := strip_ptr id (TrialReadinessGate.Selector v),
       TrialReadinessGate.ConditionTypes := strip_ptr id (TrialReadinessGate.ConditionTypes v)\<rparr>"

definition addrs_ReadinessCheck :: "ReadinessCheck \<Rightarrow> addr set" where
  "addrs_ReadinessCheck v =
     addrs_ptr no_addrs (ReadinessCheck.Selector v) \<union>
     addrs_ptr no_addrs (ReadinessCheck.ConditionTypes v) \<union>
     addrs_ptr no_addrs (LastCheckTime v)"

definition strip_ReadinessCheck :: "ReadinessCheck \<Rightarrow> ReadinessCheck" where
  "strip_ReadinessCheck v =
     v\<lparr>ReadinessCheck.Selector := strip_ptr id (ReadinessCheck.Selector v),
       ReadinessCheck.ConditionTypes := strip_ptr id (ReadinessCheck.ConditionTypes v),
       LastCheckTime := strip_ptr id (LastCheckTime v)\<rparr>"

definition addrs_TrialSpec :: "TrialSpec \<Rightarrow> addr set" where
  "addrs_TrialSpec v =
     addrs_ptr no_addrs (ExperimentRef v) \<union>
     addrs_ptr no_addrs (TrialSpec.Assignments v) \<union>
     addrs_ptr no_addrs (TrialSpec.Selector v) \<union>
     addrs_ptr no_addrs (Template v) \<union>
     addrs_ptr no_addrs (StartTimeOffset v) \<union>
     addrs_ptr no_addrs (ApproximateRuntime v) \<union>
     addrs_ptr no_addrs (TTLSecondsAfterFinished v) \<union>
     addrs_ptr no_addrs (TTLSecondsAfterFailure v) \<union>
     addrs_ptr (addrs_list addrs_TrialReadinessGate) (ReadinessGates v) \<union>
     addrs_ptr (addrs_list addrs_PatchOperation) (PatchOperations v) \<union>
     addrs_ptr (addrs_list addrs_ReadinessCheck) (ReadinessChecks v) \<union>
     addrs_ptr no_addrs (TrialSpec.Values v) \<union>
     addrs_ptr (addrs_list addrs_SetupTask) (SetupTasks v) \<union>
     addrs_ptr no_addrs (SetupVolumes v) \<union>
     addrs_ptr no_addrs (SetupDefaultRules v)"

definition strip_TrialSpec :: "TrialSpec \<Rightarrow> TrialSpec" where
  "strip_TrialSpec v =
     v\<lparr>ExperimentRef := strip_ptr id (ExperimentRef v),
       TrialSpec.Assignments := strip_ptr id (TrialSpec.Assignments v),
       TrialSpec.Selector := strip_ptr id (TrialSpec.Selector v),
       Template := strip_ptr id (Template v),
       StartTimeOffset := strip_ptr id (StartTimeOffset v),
       ApproximateRuntime := strip_ptr id (ApproximateRuntime v),
       TTLSecondsAfterFinished := strip_ptr id (TTLSecondsAfterFinished v),
       TTLSecondsAfterFailure := strip_ptr id (TTLSecondsAfterFailure v),
       ReadinessGates := strip_ptr (map strip_TrialReadinessGate) (ReadinessGates v),
       PatchOperations := strip_ptr (map strip_PatchOperation) (PatchOperations v),
       ReadinessChecks := strip_ptr (map strip_ReadinessCheck) (ReadinessChecks v),
       TrialSpec.Values := strip_ptr id (TrialSpec.Values v),
       SetupTasks := strip_ptr (map strip_SetupTask) (SetupTasks v),
       SetupVolumes := strip_ptr id (SetupVolumes v),
       SetupDefaultRules := strip_ptr id (SetupDefaultRules v)\<rparr>"

definition addrs_TrialStatus :: "TrialStatus \<Rightarrow> addr set" where
  "addrs_TrialStatus v =
     addrs_ptr no_addrs (StartTime v) \<union> addrs_ptr no_addrs (CompletionTime v) \<union>
     addrs_ptr no_addrs (Conditions v)"

definition strip_TrialStatus :: "TrialStatus \<Rightarrow> TrialStatus" where
  "strip_TrialStatus v =
     v\<lparr>StartTime := strip_ptr id (StartTime v), CompletionTime := strip_ptr id (CompletionTime v),
       Conditions := strip_ptr id (Conditions v)\<rparr>"

definition addrs_Trial :: "Trial \<Rightarrow> addr set" where
  "addrs_Trial v = addrs_TrialSpec (Spec v) \<union> addrs_TrialStatus (Trial.Status v)"

definition strip_Trial :: "Trial \<Rightarrow> Trial" where
  "strip_Trial v = v\<lparr>Spec := strip_TrialSpec (Spec v), Trial.Status := strip_TrialStatus (Trial.Status v)\<rparr>"

text \<open>
  What a deep copy has to do, for a type with blanking \<open>S\<close> and reachable addresses \<open>A\<close>:
  the copy is structurally equal to the original, the counter does not go back, and
  every address of the copy was allocated by this call.
\<close>

definition copies :: "('a \<Rightarrow> 'a) \<Rightarrow> ('a \<Rightarrow> addr set) \<Rightarrow> ('a \<Rightarrow> 'a alloc) \<Rightarrow> bool" where
  "copies S A f =
     (\<forall>x n. S (fst (f x n)) = S x \<and> n \<le> snd (f x n) \<and> A (fst (f x n)) \<subseteq> {n..<snd (f x n)})"

subsection \<open>Writing through a pointer\<close>

text \<open>
  A store instruction changes the contents found at one address, for every pointer to
  that address. \<open>poke a w p\<close> is \<open>p\<close> after the contents at address \<open>a\<close> went through
  \<open>w\<close>.
\<close>

fun poke :: "addr \<Rightarrow> ('a \<Rightarrow> 'a) \<Rightarrow> 'a ptr \<Rightarrow> 'a ptr" where
  "poke a w nil = nil"
| "poke a w (Ptr b v) = Ptr b (if b = a then w v else v)"

text \<open>
  The stores into the arrays a trial owns, \<^verbatim>\<open>s[i] = v\<close> with the array of \<open>s\<close> at the
  address given to \<open>store\<close>; \<open>store a w t\<close> is the trial \<open>t\<close> as it reads afterwards. (An
  index out of range panics in Go and changes no memory.)
\<close>

datatype store_instr =
  WriteAssignment nat Assignment
| WritePatchOperation nat PatchOperation
| WriteData nat byte
| WriteValue nat Value
| WriteSetupTask nat SetupTask
| WriteCondition nat TrialCondition

definition store :: "addr \<Rightarrow> store_instr \<Rightarrow> Trial \<Rightarrow> Trial" where
  "store a w t =
     (let spec = Spec t; status = Trial.Status t
      in case w of
           WriteAssignment i v \<Rightarrow>
             t\<lparr>Spec := spec\<lparr>TrialSpec.Assignments :=
               poke a (\<lambda>xs. xs[i := v]) (TrialSpec.Assignments spec)\<rparr>\<rparr>
         | WritePatchOperation i v \<Rightarrow>
             t\<lparr>Spec := spec\<lparr>PatchOperations :=
               poke a (\<lambda>xs. xs[i := v]) (PatchOperations spec)\<rparr>\<rparr>
         | WriteData i b \<Rightarrow>
             t\<lparr>Spec := spec\<lparr>PatchOperations :=
               map_ptr (map (\<lambda>p. p\<lparr>Data := poke a (\<lambda>bs. bs[i := b]) (Data p)\<rparr>))
                 (PatchOperations spec)\<rparr>\<rparr>
         | WriteValue i v \<Rightarrow>
             t\<lparr>Spec := spec\<lparr>TrialSpec.Values :=
               poke a (\<lambda>xs. xs[i := v]) (TrialSpec.Values spec)\<rparr>\<rparr>
         | WriteSetupTask i v \<Rightarrow>
             t\<lparr>Spec := spec\<lparr>SetupTasks := poke a (\<lambda>xs. xs[i := v]) (SetupTasks spec)\<rparr>\<rparr>
         | WriteCondition i v \<Rightarrow>
             t\<lparr>Trial.Status := status\<lparr>Conditions :=
               poke a (\<lambda>xs. xs[i := v]) (Conditions status)\<rparr>\<rparr>)"

subsection \<open>An example trial in memory\<close>

definition example_ref :: ObjectReference where
  "example_ref = \<lparr>Kind = ''Deployment'', Namespace = ''default'', ObjectReference.Name = ''web'', UID = [],
     APIVersion = ''apps/v1'', ResourceVersion = [], FieldPath = []\<rparr>"

definition example_time :: Time where
  "example_time = LibraryValue ''2019-06-01T12:00:00Z''"

text \<open>
  A trial at address 0 with one assignment, one patch, one value, one setup task and one
  condition; \<open>at\<close> gives the addresses of its arrays and pointers, in the order
  assignments, patches, patch data, values, setup tasks, Helm values, value source,
  parameter reference, conditions.
\<close>

definition example_trial_at :: "addr list \<Rightarrow> Trial" where
  "example_trial_at at =
     \<lparr>TypeMeta = LibraryValue ''Trial'', ObjectMeta = LibraryValue ''trial-001'',
      Spec = \<lparr>TrialSpec.ExperimentRef = nil, TargetNamespace = ''default'',
        TrialSpec.Assignments = Ptr (at ! 0) [\<lparr>Assignment.Name = ''replicas'', Assignment.Value = 3\<rparr>],
        TrialSpec.Selector = nil, Template = nil, StartTimeOffset = nil, ApproximateRuntime = nil,
        TTLSecondsAfterFinished = nil, TTLSecondsAfterFailure = nil, ReadinessGates = nil,
        PatchOperations = Ptr (at ! 1)
          [\<lparr>PatchOperation.TargetRef = example_ref, PatchType = ''application/merge-patch+json'',
            Data = Ptr (at ! 2) [123, 125], PatchOperation.AttemptsRemaining = 3\<rparr>],
        ReadinessChecks = nil,
        TrialSpec.Values = Ptr (at ! 3)
          [\<lparr>Value.Name = ''duration'', Value.Value = ''12.5'', Error = [], Value.AttemptsRemaining = 0\<rparr>],
        SetupTasks = Ptr (at ! 4)
          [\<lparr>SetupTask.Name = ''monitoring'', Image = [], SkipCreate = False, SkipDelete = True,
            Command = nil, Args = nil, VolumeMounts = nil, HelmChart = ''stable/prometheus'',
            HelmValues = Ptr (at ! 5)
              [\<lparr>HelmValue.Name = ''replicaCount'', ForceString = False, HelmValue.Value = FromInt 0,
                ValueFrom = Ptr (at ! 6)
                  \<lparr>ParameterRef = Ptr (at ! 7) \<lparr>ParameterSelector.Name = ''replicas''\<rparr>\<rparr>\<rparr>],
            HelmValuesFrom = nil\<rparr>],
        SetupVolumes = nil, SetupServiceAccountName = [], SetupDefaultRules = nil\<rparr>,
      Trial.Status = \<lparr>TrialStatus.Assignments = ''replicas=3'', TrialStatus.Values = ''duration=12.5'',
        StartTime = nil, CompletionTime = nil,
        Conditions = Ptr (at ! 8)
          [\<lparr>TrialCondition.Type = TrialComplete, TrialCondition.Status = ConditionTrue, LastProbeTime = example_time,
            LastTransitionTime = example_time, Reason = [], Message = []\<rparr>]\<rparr>\<rparr>"

definition example_trial :: Trial where
  "example_trial = example_trial_at [1, 2, 3, 4, 5, 6, 7, 8, 9]"

subsection \<open>Example values for the client\<close>

definition failing_transport :: RoundTripper where
  "failing_transport req = Inl (ErrorString ''connection refused'')"

definition slow_response :: Response where
  "slow_response = \<lparr>StatusCode = 200, read_body = Some [123, 125], read_err = None,
     read_ends = Some 7, close_err = None\<rparr>"



definition waiting :: scheduler where
  "waiting = \<lparr>select_at = 1, tie = ReadDone\<rparr>"

definition late :: scheduler where
  "late = \<lparr>select_at = 5, tie = ReadDone\<rparr>"

definition slow_transport :: RoundTripper where
  "slow_transport req = Inr slow_response"

definition cancelled_context :: Context where
  "cancelled_context = \<lparr>done_at = Some 3, cause = Canceled\<rparr>"

definition get_request :: Request where
  "get_request =
     \<lparr>Method = ''GET'',
      Target = Some \<lparr>Scheme = ''https'', Host = ''api'', URL.Path = ''/experiments/''\<rparr>,
      ctx = None\<rparr>"

text \<open>A configuration whose URL lookup succeeds for the empty endpoint only.\<close>

definition strict_config :: Config where
  "strict_config =
     \<lparr>Authorize = (\<lambda>c tr. (tr, None)),
      ExperimentsURL = (\<lambda>ep.
        if ep = [] then (Some \<lparr>Scheme = ''https'', Host = ''api'', URL.Path = ''/experiments/''\<rparr>, None)
        else (None, Some (ErrorString ''invalid URL escape'')))\<rparr>"

definition example_client :: "RoundTripper \<Rightarrow> httpClient" where
  "example_client rt = \<lparr>config = strict_config, client = \<lparr>Transport = Some rt, Timeout = 10 * second\<rparr>\<rparr>"

section \<open>Experiments and the trial lifecycle\<close>

subsection \<open>Metrics\<close>

text \<open>
  \<^verbatim>\<open>MetricType\<close> is a string type, and the \<^verbatim>\<open>Type\<close> field of a metric holds whatever string
  the experiment gives (the field is \<^verbatim>\<open>omitempty\<close>). Three constants are declared.
\<close>

type_synonym MetricType = string

definition MetricLocal :: MetricType where
  "MetricLocal = ''local''"

definition MetricPrometheus :: MetricType where
  "MetricPrometheus = ''prometheus''"

definition MetricJSONPath :: MetricType where
  "MetricJSONPath = ''jsonpath''"

record Metric =
  Name :: string
  Minimize :: bool
  Type :: MetricType
  Query :: string
  Selector :: "LabelSelector ptr"
  Port :: IntOrString
  Path :: string

subsection \<open>Attempt counters\<close>

text \<open>
  Modelled from the spec: the controllers that resolve patches, collect metrics and drive
  the lifecycle are not part of the sources covered here, which only declare the data.
  This is how one attempt at an operation can end: it succeeds, it fails for now, it
  fails for good, or it is cancelled while in flight.
\<close>

datatype attempt = Succeeded | FailedTransient | FailedNonRetryable | Interrupted

text \<open>
  Modelled from the spec: the counting of attempts, by the patch resolver and by the metric
  collector. On success the counter is set to 0, a failure decrements it, a non-retryable
  failure exhausts it at once, a cancelled attempt leaves it alone; with no attempt
  remaining none is made. (The counter is a Go \<^verbatim>\<open>int\<close>; it only ever moves between 0 and
  its configured start, so its width plays no part.)
\<close>

definition countDown :: "attempt \<Rightarrow> int \<Rightarrow> int" where
  "countDown a n =
     (if n \<le> 0 then n
      else case a of
             Succeeded \<Rightarrow> 0
           | FailedTransient \<Rightarrow> n - 1
           | FailedNonRetryable \<Rightarrow> 0
           | Interrupted \<Rightarrow> n)"

text \<open>
  Modelled from the spec: an attempt is fatal for the trial when it leaves the counter
  at zero without success.
\<close>

definition exhausts :: "attempt \<Rightarrow> int \<Rightarrow> bool" where
  "exhausts a n = (0 < n \<and> (a = FailedNonRetryable \<or> (a = FailedTransient \<and> n = 1)))"

text \<open>
  Modelled from the spec: the patch resolver records the outcome of applying one patch
  operation (the application itself is the cluster's).
\<close>

definition applyPatch :: "attempt \<Rightarrow> PatchOperation \<Rightarrow> PatchOperation" where
  "applyPatch a op =
     op\<lparr>PatchOperation.AttemptsRemaining := countDown a (PatchOperation.AttemptsRemaining op)\<rparr>"

subsection \<open>The trial as the controller drives it\<close>

text \<open>Modelled from the spec: the states of the lifecycle state machine.\<close>

datatype Phase =
  Pending | Patching | AwaitingSetup | AwaitingReady | Running | Measuring | SettingDown
| Complete | Failed

text \<open>
  Modelled from the spec: the trial of the spec's data model, as the lifecycle controller
  holds it: the phase of the state machine, the attributes the controller works on, the
  readiness polls left, and the first fatal failure recorded (reason and message).
\<close>

record lifecycle =
  phase :: Phase
  assignments :: "Assignment list"
  patchOperations :: "PatchOperation list"
  metricValues :: "Value list"
  setupTasks :: "SetupTask list"
  conditions :: "TrialCondition list"
  pollsRemaining :: nat
  fatal :: "(string \<times> string) option"

text \<open>
  Modelled from the spec: what the controller is configured with and the evaluators it
  plugs in: the experiment's metrics, the bounds on attempts and polls, the template
  engine for local metrics and the JSON path engine.
\<close>

record controller =
  metrics :: "Metric list"
  maxPatchAttempts :: nat
  maxMetricAttempts :: nat
  maxReadinessPolls :: nat
  evalTemplate :: "string \<Rightarrow> lifecycle \<Rightarrow> string option"
  jsonPath :: "string \<Rightarrow> string \<Rightarrow> string option"

subsection \<open>The metric collector\<close>

text \<open>
  Modelled from the spec: what the matched endpoint answered to one fetch, and what the
  collector makes of it. The answer is nothing (network failure or timeout),
  nothing because the fetch was cancelled, a Prometheus result as its samples (value and
  error band, both as strings), or a JSON document.
\<close>

datatype response =
  Unreachable
| FetchCancelled
| Samples "(string \<times> string) list"
| Document string

datatype capture = Captured string string | Transient | DataShape | Abandoned

text \<open>
  Modelled from the spec: the metric collector, by the metric's type. A local metric is a
  template evaluated against the trial, and the endpoint's answer plays no part; a Prometheus result must be one single sample; a JSON path metric extracts from
  the document fetched. A result of the wrong shape, a query that does not evaluate and a
  type that is none of the three are data-shape errors.
\<close>

definition captureMetric :: "controller \<Rightarrow> Metric \<Rightarrow> lifecycle \<Rightarrow> response \<Rightarrow> capture" where
  "captureMetric c m trial resp =
     (if Metric.Type m = MetricLocal then
        (case evalTemplate c (Query m) trial of
           Some v \<Rightarrow> Captured v []
         | None \<Rightarrow> DataShape)
      else if Metric.Type m = MetricPrometheus then
        (case resp of
           Unreachable \<Rightarrow> Transient
         | FetchCancelled \<Rightarrow> Abandoned
         | Samples ps \<Rightarrow> (case ps of [p] \<Rightarrow> Captured (fst p) (snd p) | _ \<Rightarrow> DataShape)
         | Document d \<Rightarrow> DataShape)
      else if Metric.Type m = MetricJSONPath then
        (case resp of
           Unreachable \<Rightarrow> Transient
         | FetchCancelled \<Rightarrow> Abandoned
         | Samples ps \<Rightarrow> DataShape
         | Document d \<Rightarrow>
             (case jsonPath c (Query m) d of
                Some v \<Rightarrow> Captured v []
              | None \<Rightarrow> DataShape))
      else DataShape)"

text \<open>
  Modelled from the spec: a transient failure is retried within the attempts left, a
  data-shape error is not.
\<close>

definition attemptOf :: "capture \<Rightarrow> attempt" where
  "attemptOf cap =
     (case cap of
        Captured v e \<Rightarrow> Succeeded
      | Transient \<Rightarrow> FailedTransient
      | DataShape \<Rightarrow> FailedNonRetryable
      | Abandoned \<Rightarrow> Interrupted)"

text \<open>
  Modelled from the spec: the collector records one attempt in the metric's value. Success
  stores the value and its error band.
\<close>

definition recordCapture :: "capture \<Rightarrow> Value \<Rightarrow> Value" where
  "recordCapture cap v =
     (let v = (case cap of
                 Captured x e \<Rightarrow>
                   if 0 < Value.AttemptsRemaining v then v\<lparr>Value.Value := x, Error := e\<rparr> else v
               | _ \<Rightarrow> v)
      in v\<lparr>Value.AttemptsRemaining := countDown (attemptOf cap) (Value.AttemptsRemaining v)\<rparr>)"

subsection \<open>The state machine\<close>

text \<open>
  Modelled from the spec: a trial is finished once a condition of type \<^verbatim>\<open>Complete\<close> or
  \<^verbatim>\<open>Failed\<close> has status \<^verbatim>\<open>True\<close>.
\<close>

definition IsFinished :: "TrialCondition list \<Rightarrow> bool" where
  "IsFinished cs =
     list_ex (\<lambda>c. (TrialCondition.Type c = TrialComplete \<or> TrialCondition.Type c = TrialFailed)
                  \<and> TrialCondition.Status c = ConditionTrue) cs"

text \<open>Modelled from the spec: a condition probed and changed at time \<open>now\<close>.\<close>

definition newCondition ::
    "TrialConditionType \<Rightarrow> ConditionStatus \<Rightarrow> Time \<Rightarrow> string \<Rightarrow> string \<Rightarrow> TrialCondition" where
  "newCondition t st now reason msg =
     \<lparr>TrialCondition.Type = t, TrialCondition.Status = st, LastProbeTime = now,
      LastTransitionTime = now, Reason = reason, Message = msg\<rparr>"

text \<open>
  Modelled from the spec: the three ways the controller writes a condition. A fatal path
  sets \<^verbatim>\<open>Failed=True\<close> with a reason and a message; a warning is a condition that is not
  true, so it finishes nothing.
\<close>

definition fail :: "Time \<Rightarrow> string \<Rightarrow> string \<Rightarrow> lifecycle \<Rightarrow> lifecycle" where
  "fail now reason msg s =
     s\<lparr>phase := Failed,
       conditions := conditions s @ [newCondition TrialFailed ConditionTrue now reason msg]\<rparr>"

definition complete :: "Time \<Rightarrow> lifecycle \<Rightarrow> lifecycle" where
  "complete now s =
     s\<lparr>phase := Complete,
       conditions := conditions s @ [newCondition TrialComplete ConditionTrue now [] []]\<rparr>"

definition warn :: "Time \<Rightarrow> string \<Rightarrow> string \<Rightarrow> lifecycle \<Rightarrow> lifecycle" where
  "warn now reason msg s =
     s\<lparr>conditions := conditions s @ [newCondition TrialFailed ConditionFalse now reason msg]\<rparr>"

text \<open>
  Modelled from the spec: the end of the setting-down phase. The trial fails when a fatal
  failure was recorded, and completes otherwise.
\<close>

definition conclude :: "Time \<Rightarrow> lifecycle \<Rightarrow> lifecycle" where
  "conclude now s =
     (case fatal s of
        Some (reason, msg) \<Rightarrow> fail now reason msg s
      | None \<Rightarrow> complete now s)"

text \<open>
  Modelled from the spec: what the controller observes. \<open>Admit\<close> carries, for each patch template, the operation
  resolved from it and whether the template evaluated; \<open>PatchAttempt\<close> and
  \<open>MetricAttempt\<close> carry the index of the operation and what came back; \<open>Reconcile\<close> is
  a look at the trial with nothing new from outside.
\<close>

datatype readiness = Ready | NotReady | TimedOut

datatype event =
  Admit "(PatchOperation \<times> bool) list"
| PatchAttempt nat attempt
| SetupCreated bool
| ReadinessPolled readiness
| JobCompleted
| MetricAttempt nat response
| SetupDeleted bool
| Reconcile

text \<open>
  Modelled from the spec: each resolved operation starts with the configured number of
  attempts; a template that did not evaluate exhausts the counter at once.
\<close>

definition resolved :: "nat \<Rightarrow> PatchOperation \<times> bool \<Rightarrow> PatchOperation" where
  "resolved bound r =
     (fst r)\<lparr>PatchOperation.AttemptsRemaining := (if snd r then int bound else 0)\<rparr>"

text \<open>
  Modelled from the spec: the value of a metric before its first attempt, with the
  configured number of attempts.
\<close>

definition pendingValue :: "nat \<Rightarrow> Metric \<Rightarrow> Value" where
  "pendingValue bound m =
     \<lparr>Value.Name = Metric.Name m, Value.Value = [], Error = [],
      Value.AttemptsRemaining = int bound\<rparr>"

text \<open>
  Modelled from the spec: one step of the lifecycle controller, at time \<open>now\<close>. A finished
  trial only ever gets a warning appended to its conditions. Otherwise the phase decides
  what an observation does, and an observation the phase does not wait for does nothing.
\<close>

definition step :: "controller \<Rightarrow> Time \<Rightarrow> event \<Rightarrow> lifecycle \<Rightarrow> lifecycle" where
  "step c now e s =
     (if IsFinished (conditions s) then
        (case e of
           SetupDeleted ok \<Rightarrow>
             if ok then s else warn now ''SetupDeleteFailed'' ''setup task deletion failed'' s
         | _ \<Rightarrow> s)
      else case phase s of
        Pending \<Rightarrow>
          (case e of
             Admit rs \<Rightarrow>
               (let s' = s\<lparr>patchOperations := map (resolved (maxPatchAttempts c)) rs\<rparr>
                in if list_all snd rs then s'\<lparr>phase := Patching\<rparr>
                   else fail now ''PatchFailed'' ''patch template did not evaluate'' s')
           | _ \<Rightarrow> s)
      | Patching \<Rightarrow>
          (case e of
             PatchAttempt i a \<Rightarrow>
               if i < length (patchOperations s) then
                 (let op = patchOperations s ! i;
                      s' = s\<lparr>patchOperations := (patchOperations s)[i := applyPatch a op]\<rparr>
                  in if exhausts a (PatchOperation.AttemptsRemaining op)
                     then fail now ''PatchFailed'' ''patch attempts exhausted'' s'
                     else s')
               else s
           | Reconcile \<Rightarrow>
               if list_all (\<lambda>op. PatchOperation.AttemptsRemaining op = 0) (patchOperations s)
               then s\<lparr>phase := AwaitingSetup\<rparr> else s
           | _ \<Rightarrow> s)
      | AwaitingSetup \<Rightarrow>
          (case e of
             SetupCreated ok \<Rightarrow>
               if ok then s\<lparr>phase := AwaitingReady\<rparr>
               else fail now ''SetupCreateFailed'' ''setup task creation failed'' s
           | Reconcile \<Rightarrow>
               if list_all SkipCreate (setupTasks s) then s\<lparr>phase := AwaitingReady\<rparr> else s
           | _ \<Rightarrow> s)
      | AwaitingReady \<Rightarrow>
          (case e of
             ReadinessPolled r \<Rightarrow>
               (case r of
                  Ready \<Rightarrow> s\<lparr>phase := Running\<rparr>
                | NotReady \<Rightarrow> s
                | TimedOut \<Rightarrow>
                    if pollsRemaining s \<le> 1
                    then fail now ''ReadinessTimeout'' ''readiness polls exhausted'' s
                    else s\<lparr>pollsRemaining := pollsRemaining s - 1\<rparr>)
           | _ \<Rightarrow> s)
      | Running \<Rightarrow>
          (case e of
             JobCompleted \<Rightarrow>
               s\<lparr>phase := Measuring,
                 metricValues := map (pendingValue (maxMetricAttempts c)) (metrics c)\<rparr>
           | _ \<Rightarrow> s)
      | Measuring \<Rightarrow>
          (case e of
             MetricAttempt i resp \<Rightarrow>
               if i < length (metricValues s) \<and> i < length (metrics c) then
                 (let v = metricValues s ! i;
                      cap = captureMetric c (metrics c ! i) s resp;
                      s' = s\<lparr>metricValues := (metricValues s)[i := recordCapture cap v]\<rparr>
                  in if exhausts (attemptOf cap) (Value.AttemptsRemaining v)
                     then (case fatal s' of
                             None \<Rightarrow> s'\<lparr>fatal := Some (''MetricFailed'', Value.Name v)\<rparr>
                           | Some f \<Rightarrow> s')
                     else s')
               else s
           | Reconcile \<Rightarrow>
               if list_all (\<lambda>v. Value.AttemptsRemaining v = 0) (metricValues s)
               then s\<lparr>phase := SettingDown\<rparr> else s
           | _ \<Rightarrow> s)
      | SettingDown \<Rightarrow>
          (case e of
             SetupDeleted ok \<Rightarrow>
               conclude now
                 (if ok then s
                  else warn now ''SetupDeleteFailed'' ''setup task deletion failed'' s)
           | Reconcile \<Rightarrow>
               if list_all SkipDelete (setupTasks s) then conclude now s else s
           | _ \<Rightarrow> s)
      | Complete \<Rightarrow> s
      | Failed \<Rightarrow> s)"

text \<open>Modelled from the spec: the controller takes its observations one after the other.\<close>

fun run :: "controller \<Rightarrow> (Time \<times> event) list \<Rightarrow> lifecycle \<Rightarrow> lifecycle" where
  "run c [] s = s"
| "run c (te # es) s = run c es (step c (fst te) (snd te) s)"

text \<open>
  Modelled from the spec: a trial is created from the experiment's template and the
  assignments supplied from outside, with nothing resolved or measured yet.
\<close>

definition newTrial :: "controller \<Rightarrow> Assignment list \<Rightarrow> SetupTask list \<Rightarrow> lifecycle" where
  "newTrial c as ts =
     \<lparr>phase = Pending, assignments = as, patchOperations = [], metricValues = [], setupTasks = ts,
      conditions = [], pollsRemaining = maxReadinessPolls c, fatal = None\<rparr>"

text \<open>The attempt counters of a trial, patches first.\<close>

definition counters :: "lifecycle \<Rightarrow> int list \<times> int list" where
  "counters s =
     (map PatchOperation.AttemptsRemaining (patchOperations s),
      map Value.AttemptsRemaining (metricValues s))"

text \<open>
  \<open>ys\<close> are the counters \<open>xs\<close> at a later time: those that existed are still there, in
  place, and none is larger than it was.
\<close>

definition not_increased :: "int list \<Rightarrow> int list \<Rightarrow> bool" where
  "not_increased xs ys =
     (length xs \<le> length ys \<and> list_all2 (\<lambda>x y. y \<le> x) xs (take (length xs) ys))"

subsection \<open>Invariants of the lifecycle\<close>

text \<open>
  Along a trial's life no counter is negative, there is no patch operation before the
  trial is admitted, and no value before measuring starts.
\<close>

definition nonneg :: "int list \<Rightarrow> bool" where
  "nonneg xs = list_all (\<lambda>n. 0 \<le> n) xs"

definition beforeMeasuring :: "Phase \<Rightarrow> bool" where
  "beforeMeasuring p =
     (p = Pending \<or> p = Patching \<or> p = AwaitingSetup \<or> p = AwaitingReady \<or> p = Running)"

definition wellCounted :: "lifecycle \<Rightarrow> bool" where
  "wellCounted s =
     (nonneg (fst (counters s)) \<and> nonneg (snd (counters s)) \<and>
      (if phase s = Pending then patchOperations s = [] else True) \<and>
      (if beforeMeasuring (phase s) then metricValues s = [] else True))"

text \<open>
  A trial with a fatal metric failure on record: while it is not finished it is measuring
  or setting down, and once finished it has failed.
\<close>

definition HasFailed :: "TrialCondition list \<Rightarrow> bool" where
  "HasFailed cs =
     list_ex (\<lambda>c. TrialCondition.Type c = TrialFailed \<and> TrialCondition.Status c = ConditionTrue) cs"

definition doomed :: "lifecycle \<Rightarrow> bool" where
  "doomed s =
     (if IsFinished (conditions s) then phase s = Failed \<and> HasFailed (conditions s)
      else fatal s \<noteq> None \<and> (phase s = Measuring \<or> phase s = SettingDown))"

subsection \<open>Example trials\<close>

definition example_patch :: PatchOperation where
  "example_patch =
     \<lparr>PatchOperation.TargetRef = example_ref, PatchType = ''application/merge-patch+json'',
      Data = Ptr 1 [123, 125], PatchOperation.AttemptsRemaining = 0\<rparr>"

definition duration_metric :: Metric where
  "duration_metric =
     \<lparr>Metric.Name = ''duration'', Minimize = True, Metric.Type = MetricLocal,
      Query = ''{{duration .StartTime .CompletionTime}}'', Metric.Selector = nil,
      Port = FromInt 0, Metric.Path = []\<rparr>"

definition latency_metric :: Metric where
  "latency_metric =
     \<lparr>Metric.Name = ''latency'', Minimize = True, Metric.Type = MetricPrometheus,
      Query = ''scalar(latency)'', Metric.Selector = nil, Port = FromInt 9090,
      Metric.Path = []\<rparr>"

definition untyped_metric :: Metric where
  "untyped_metric =
     \<lparr>Metric.Name = ''cost'', Minimize = True, Metric.Type = [], Query = ''{{.Cost}}'',
      Metric.Selector = nil, Port = FromInt 0, Metric.Path = []\<rparr>"

definition example_controller :: controller where
  "example_controller =
     \<lparr>metrics = [duration_metric, latency_metric], maxPatchAttempts = 1, maxMetricAttempts = 3,
      maxReadinessPolls = 5, evalTemplate = (\<lambda>q t. Some ''12.5''),
      jsonPath = (\<lambda>q d. None)\<rparr>"

definition patient_controller :: controller where
  "patient_controller = example_controller\<lparr>maxPatchAttempts := 3\<rparr>"

definition aborted_trial :: lifecycle where
  "aborted_trial =
     \<lparr>phase = Failed,
      assignments = [\<lparr>Assignment.Name = ''replicas'', Assignment.Value = 3\<rparr>],
      patchOperations = [example_patch], metricValues = [], setupTasks = [],
      conditions = [newCondition TrialFailed ConditionTrue example_time ''PatchFailed''
                      ''patch attempts exhausted''],
      pollsRemaining = 5, fatal = None\<rparr>"

definition measuring_trial :: lifecycle where
  "measuring_trial =
     \<lparr>phase = Measuring,
      assignments = [\<lparr>Assignment.Name = ''replicas'', Assignment.Value = 3\<rparr>],
      patchOperations = [example_patch],
      metricValues =
        [\<lparr>Value.Name = ''duration'', Value.Value = ''12.5'', Error = [],
          Value.AttemptsRemaining = 0\<rparr>,
         \<lparr>Value.Name = ''latency'', Value.Value = [], Error = [],
          Value.AttemptsRemaining = 3\<rparr>],
      setupTasks = [], conditions = [], pollsRemaining = 5, fatal = None\<rparr>"

definition three_points :: "(string \<times> string) list" where
  "three_points = [(''0.21'', []), (''0.25'', []), (''0.19'', [])]"

text \<open>
  The first scenario of the spec: one local metric, no patch template, no setup task, and
  the assignment \<open>replicas = 3\<close>.
\<close>

definition scenario_controller :: controller where
  "scenario_controller = example_controller\<lparr>metrics := [duration_metric]\<rparr>"

definition scenario_events :: "(Time \<times> event) list" where
  "scenario_events =
     map (Pair example_time)
       [Admit [], Reconcile, Reconcile, ReadinessPolled Ready, JobCompleted,
        MetricAttempt 0 Unreachable, Reconcile, Reconcile]"

section \<open>Properties of the API client\<close>

text \<open>
  C5: when the exchange through \<^verbatim>\<open>c.client.Do\<close> fails, \<^verbatim>\<open>Do\<close> returns a nil response, a nil
  body and that very error, whatever the context is, and it has handed exactly one request
  to the HTTP client: the request is not sent again.
\<close>

theorem Do_round_trip_error:
  assumes "http_Client_Do dflt (client c) (case cx of None \<Rightarrow> req | Some x \<Rightarrow> WithContext req x) = Inl e"
  shows "Do dflt sched c cx req =
           (Return None None (Some e), [case cx of None \<Rightarrow> req | Some x \<Rightarrow> WithContext req x])"
  using assms by (simp add: Do_def Let_def)

theorem Do_round_trip_error_witness:
  "http_Client_Do slow_transport (client (example_client failing_transport))
      (case Some cancelled_context of None \<Rightarrow> get_request | Some x \<Rightarrow> WithContext get_request x)
     = Inl (ErrorString ''connection refused'') \<and>
   Do slow_transport waiting (example_client failing_transport) (Some cancelled_context) get_request
     = (Return None None (Some (ErrorString ''connection refused'')),
        [WithContext get_request cancelled_context])"
  using Do_round_trip_error [where dflt = slow_transport and c = "example_client failing_transport"
      and cx = "Some cancelled_context" and req = get_request
      and e = "ErrorString ''connection refused''" and sched = waiting]
  by (simp add: http_Client_Do_def example_client_def failing_transport_def)

text \<open>
  C9: with a nil context, whenever the exchange gives a response, \<^verbatim>\<open>Do\<close> does not return:
  the \<^verbatim>\<open>select\<close> evaluates \<^verbatim>\<open>ctx.Done()\<close> on the nil interface and the call panics.
\<close>

theorem Do_nil_context_panics:
  assumes "http_Client_Do dflt (client c) req = Inr resp"
  shows "fst (Do dflt sched c None req) = Panic"
  using assms by (simp add: Do_def)

theorem Do_nil_context_panics_witness:
  "http_Client_Do failing_transport (client (example_client slow_transport)) get_request
     = Inr slow_response \<and>
   fst (Do failing_transport late (example_client slow_transport) None get_request) = Panic"
  using Do_nil_context_panics [where dflt = failing_transport
      and c = "example_client slow_transport" and req = get_request and resp = slow_response
      and sched = late]
  by (simp add: http_Client_Do_def example_client_def slow_transport_def)

subsection \<open>Cancellation\<close>


lemma abort_at_done:
  assumes "done_at x = Some t"
  shows "\<exists>a. abort_at cl (WithContext req x) = Some a \<and> fst a \<le> t"
  using assms by (auto simp: abort_at_def WithContext_def Let_def)

lemma ReadAll_aborted:
  assumes "abort_at cl req = Some a"
  shows "\<exists>r body rerr. ReadAll cl req resp = Some (r, body, rerr) \<and> body = read_body resp
           \<and> r \<le> Suc (fst a)"
  using assms by (auto simp: ReadAll_def split: option.split)







subsection \<open>Construction and URLs\<close>

text \<open>
  C8: for every endpoint, \<^verbatim>\<open>URL\<close> returns the first result of \<^verbatim>\<open>ExperimentsURL\<close> and never
  looks at the second. \<^verbatim>\<open>NewClient\<close> succeeds exactly when the authorization and the lookup
  of the empty endpoint give no error, and the client it returns holds the configuration
  it was given; no other endpoint is looked up. So there is a configuration with which
  \<^verbatim>\<open>NewClient\<close> succeeds and the client it returns gives a nil URL for an endpoint whose
  lookup fails.
\<close>

theorem URL_discards_error:
  "URL c ep = fst (ExperimentsURL (config c) ep) \<and>
   ((\<exists>hc. NewClient cfg cx tr = Inr hc) =
      (snd (Authorize cfg cx tr) = None \<and> snd (ExperimentsURL cfg []) = None)) \<and>
   (NewClient cfg cx tr = Inr hc \<longrightarrow>
      snd (ExperimentsURL cfg []) = None \<and> config hc = cfg \<and>
      URL hc ep = fst (ExperimentsURL cfg ep)) \<and>
   (\<exists>cfg hc. NewClient cfg cx tr = Inr hc \<and>
      snd (ExperimentsURL cfg ''trials'') = Some (ErrorString ''invalid URL escape'') \<and>
      URL hc ''trials'' = None)"
proof (intro conjI)
  show "URL c ep = fst (ExperimentsURL (config c) ep)"
    by (simp add: URL_def split: prod.split)
next
  show "(\<exists>hc. NewClient cfg cx tr = Inr hc) =
      (snd (Authorize cfg cx tr) = None \<and> snd (ExperimentsURL cfg []) = None)"
    by (cases "Authorize cfg cx tr") (auto simp: NewClient_def Let_def split: option.splits)
next
  show "NewClient cfg cx tr = Inr hc \<longrightarrow>
      snd (ExperimentsURL cfg []) = None \<and> config hc = cfg \<and>
      URL hc ep = fst (ExperimentsURL cfg ep)"
    by (cases "Authorize cfg cx tr")
      (auto simp: NewClient_def URL_def Let_def split: option.splits prod.split)
next
  let ?hc = "\<lparr>config = strict_config, client = \<lparr>Transport = tr, Timeout = 10 * second\<rparr>\<rparr>"
  have "NewClient strict_config cx tr = Inr ?hc"
    by (simp add: NewClient_def strict_config_def)
  moreover have "URL ?hc ''trials'' = None"
    by (simp add: URL_def strict_config_def)
  moreover have "snd (ExperimentsURL strict_config ''trials'') = Some (ErrorString ''invalid URL escape'')"
    by (simp add: strict_config_def)
  ultimately show "\<exists>cfg hc. NewClient cfg cx tr = Inr hc \<and>
      snd (ExperimentsURL cfg ''trials'') = Some (ErrorString ''invalid URL escape'') \<and>
      URL hc ''trials'' = None"
    by blast
qed

theorem URL_discards_error_witness:
  "NewClient strict_config None None
     = Inr \<lparr>config = strict_config, client = \<lparr>Transport = None, Timeout = 10 * second\<rparr>\<rparr> \<and>
   snd (ExperimentsURL strict_config []) = None \<and>
   URL \<lparr>config = strict_config, client = \<lparr>Transport = None, Timeout = 10 * second\<rparr>\<rparr> ''trials''
     = None \<and>
   snd (ExperimentsURL strict_config ''trials'') = Some (ErrorString ''invalid URL escape'')"
proof -
  have 1: "NewClient strict_config None None
     = Inr \<lparr>config = strict_config, client = \<lparr>Transport = None, Timeout = 10 * second\<rparr>\<rparr>"
    by (simp add: NewClient_def strict_config_def)
  have 2: "fst (ExperimentsURL strict_config ''trials'') = None"
    and 3: "snd (ExperimentsURL strict_config ''trials'') = Some (ErrorString ''invalid URL escape'')"
    by (simp_all add: strict_config_def)
  from URL_discards_error [where cfg = strict_config and cx = None and tr = None
      and hc = "\<lparr>config = strict_config, client = \<lparr>Transport = None, Timeout = 10 * second\<rparr>\<rparr>"
      and ep = "''trials''"] 1 2 3
  show ?thesis by simp
qed

section \<open>Properties of the generated deep copies\<close>

subsection \<open>Each \<^verbatim>\<open>DeepCopyInto\<close> is a deep copy\<close>

lemma copiesI:
  assumes "\<And>x n y n'. f x n = (y, n') \<Longrightarrow> S y = S x \<and> n \<le> n' \<and> A y \<subseteq> {n..<n'}"
  shows "copies S A f"
  unfolding copies_def
proof (intro allI)
  fix x n
  obtain y n' where "f x n = (y, n')" by (cases "f x n")
  with assms [OF this] show "S (fst (f x n)) = S x \<and> n \<le> snd (f x n) \<and> A (fst (f x n)) \<subseteq> {n..<snd (f x n)}"
    by simp
qed

lemma copiesD:
  assumes "copies S A f" and "f x n = (y, n')"
  shows "S y = S x" and "n \<le> n'" and "A y \<subseteq> {n..<n'}"
  using assms unfolding copies_def
  by (metis fst_conv, metis snd_conv, metis fst_conv snd_conv)

lemma copies_assign: "copies id no_addrs assign"
  by (simp add: copies_def assign_def no_addrs_def)

lemma copies_library: "copies id no_addrs library_DeepCopyInto"
  by (simp add: copies_def library_DeepCopyInto_def no_addrs_def)

lemma copies_range:
  assumes "copies S A f"
  shows "copies (map S) (addrs_list A) (range_DeepCopyInto f)"
proof (rule copiesI)
  fix xs n ys n'
  assume "range_DeepCopyInto f xs n = (ys, n')"
  then show "map S ys = map S xs \<and> n \<le> n' \<and> addrs_list A ys \<subseteq> {n..<n'}"
  proof (induction xs arbitrary: n ys n')
    case Nil
    then show ?case by (simp add: addrs_list_def)
  next
    case (Cons x xs)
    obtain y n1 where f: "f x n = (y, n1)" by (cases "f x n")
    obtain zs n2 where r: "range_DeepCopyInto f xs n1 = (zs, n2)"
      by (cases "range_DeepCopyInto f xs n1")
    from Cons.prems f r have ys: "ys = y # zs" and n': "n' = n2" by simp_all
    note h = copiesD [OF assms f]
    note ih = Cons.IH [OF r]
    have "A y \<subseteq> {n..<n2}" using h ih by auto
    moreover have "addrs_list A zs \<subseteq> {n..<n2}" using h ih by auto
    ultimately show ?case using h ih by (simp add: ys n' addrs_list_def)
  qed
qed

lemma copies_range_plain:
  assumes "copies id no_addrs f"
  shows "copies id no_addrs (range_DeepCopyInto f)"
proof (rule copiesI)
  fix xs :: "'a list" and n ys n'
  assume r: "range_DeepCopyInto f xs n = (ys, n')"
  from copiesD [OF copies_range [OF assms] r]
  show "id ys = id xs \<and> n \<le> n' \<and> no_addrs ys \<subseteq> {n..<n'}"
    by (simp add: no_addrs_def)
qed

lemma copies_new:
  assumes "copies S A f"
  shows "copies (strip_ptr S) (addrs_ptr A) (new_DeepCopyInto f)"
proof (rule copiesI)
  fix p n q n'
  assume c: "new_DeepCopyInto f p n = (q, n')"
  show "strip_ptr S q = strip_ptr S p \<and> n \<le> n' \<and> addrs_ptr A q \<subseteq> {n..<n'}"
  proof (cases p)
    case nil
    with c show ?thesis by (simp add: new_DeepCopyInto_def)
  next
    case (Ptr a v)
    obtain v' m where f: "f v (Suc n) = (v', m)" by (cases "f v (Suc n)")
    from c Ptr f have q: "q = Ptr n v'" and n': "n' = m"
      by (simp_all add: new_DeepCopyInto_def)
    note h = copiesD [OF assms f]
    from h show ?thesis by (auto simp: q n' Ptr)
  qed
qed

lemma copies_DeepCopy:
  assumes "copies S A f"
  shows "copies (strip_ptr S) (addrs_ptr A) (DeepCopy f)"
proof -
  have eq: "DeepCopy f = new_DeepCopyInto f"
    by (intro ext) (simp add: DeepCopy_def new_DeepCopyInto_def)
  show ?thesis unfolding eq by (rule copies_new [OF assms])
qed

lemma copies_new_assign: "copies (strip_ptr id) (addrs_ptr no_addrs) new_assign"
proof -
  have eq: "new_assign = new_DeepCopyInto assign"
    by (intro ext) (simp add: new_assign_def)
  show ?thesis unfolding eq by (rule copies_new [OF copies_assign])
qed

lemma copies_make_range:
  assumes "copies S A f"
  shows "copies (strip_ptr (map S)) (addrs_ptr (addrs_list A)) (make_range f)"
proof -
  have eq: "make_range f = new_DeepCopyInto (range_DeepCopyInto f)"
    by (intro ext) (simp add: make_range_def)
  show ?thesis unfolding eq by (rule copies_new [OF copies_range [OF assms]])
qed

lemma copies_make_range_plain:
  assumes "copies id no_addrs f"
  shows "copies (strip_ptr id) (addrs_ptr no_addrs) (make_range f)"
proof -
  have eq: "make_range f = new_DeepCopyInto (range_DeepCopyInto f)"
    by (intro ext) (simp add: make_range_def)
  show ?thesis unfolding eq by (rule copies_new [OF copies_range_plain [OF assms]])
qed

lemma copies_make_copy: "copies (strip_ptr id) (addrs_ptr no_addrs) make_copy"
proof -
  have eq: "make_copy = make_range assign"
    by (intro ext) (simp add: make_copy_def)
  show ?thesis unfolding eq by (rule copies_make_range_plain [OF copies_assign])
qed

lemmas copies_new_library = copies_new [OF copies_library]

lemmas copies_DeepCopy_library = copies_DeepCopy [OF copies_library]

lemmas copies_make_range_library = copies_make_range_plain [OF copies_library]

lemma copies_HelmValueSource:
  "copies strip_HelmValueSource addrs_HelmValueSource HelmValueSource_DeepCopyInto"
proof (rule copiesI)
  fix x n0 y n'
  assume c: "HelmValueSource_DeepCopyInto x n0 = (y, n')"
  obtain v1 n1 where s1: "new_assign (ParameterRef x) n0 = (v1, n1)"
    by (cases "new_assign (ParameterRef x) n0")
  from c s1 have y: "y = x\<lparr>ParameterRef := v1\<rparr>" and n': "n' = n1"
    by (simp_all add: HelmValueSource_DeepCopyInto_def Let_def)
  note h1 = copiesD [OF copies_new_assign s1]
  have a1: "addrs_ptr no_addrs v1 \<subseteq> {n0..<n1}"
    using h1(3) h1(2) by (auto simp: subset_iff)
  have "strip_HelmValueSource y = strip_HelmValueSource x"
    using h1(1) by (simp add: y strip_HelmValueSource_def)
  moreover have "n0 \<le> n'"
    using h1(2) by (simp add: n')
  moreover have "addrs_HelmValueSource y \<subseteq> {n0..<n'}"
    by (simp add: y n' addrs_HelmValueSource_def a1)
  ultimately show "strip_HelmValueSource y = strip_HelmValueSource x \<and> n0 \<le> n' \<and> addrs_HelmValueSource y \<subseteq> {n0..<n'}"
    by simp
qed

lemmas copies_new_HelmValueSource = copies_new [OF copies_HelmValueSource]

lemma copies_HelmValue:
  "copies strip_HelmValue addrs_HelmValue HelmValue_DeepCopyInto"
proof (rule copiesI)
  fix x n0 y n'
  assume c: "HelmValue_DeepCopyInto x n0 = (y, n')"
  obtain v1 n1 where s1: "new_DeepCopyInto HelmValueSource_DeepCopyInto (ValueFrom x) n0 = (v1, n1)"
    by (cases "new_DeepCopyInto HelmValueSource_DeepCopyInto (ValueFrom x) n0")
  from c s1 have y: "y = x\<lparr>ValueFrom := v1\<rparr>" and n': "n' = n1"
    by (simp_all add: HelmValue_DeepCopyInto_def Let_def)
  note h1 = copiesD [OF copies_new_HelmValueSource s1]
  have a1: "addrs_ptr addrs_HelmValueSource v1 \<subseteq> {n0..<n1}"
    using h1(3) h1(2) by (auto simp: subset_iff)
  have "strip_HelmValue y = strip_HelmValue x"
    using h1(1) by (simp add: y strip_HelmValue_def)
  moreover have "n0 \<le> n'"
    using h1(2) by (simp add: n')
  moreover have "addrs_HelmValue y \<subseteq> {n0..<n'}"
    by (simp add: y n' addrs_HelmValue_def a1)
  ultimately show "strip_HelmValue y = strip_HelmValue x \<and> n0 \<le> n' \<and> addrs_HelmValue y \<subseteq> {n0..<n'}"
    by simp
qed

lemmas copies_make_range_HelmValue = copies_make_range [OF copies_HelmValue]

lemma copies_HelmValuesFromSource:
  "copies strip_HelmValuesFromSource addrs_HelmValuesFromSource HelmValuesFromSource_DeepCopyInto"
proof (rule copiesI)
  fix x n0 y n'
  assume c: "HelmValuesFromSource_DeepCopyInto x n0 = (y, n')"
  obtain v1 n1 where s1: "new_assign (ConfigMap x) n0 = (v1, n1)"
    by (cases "new_assign (ConfigMap x) n0")
  from c s1 have y: "y = x\<lparr>ConfigMap := v1\<rparr>" and n': "n' = n1"
    by (simp_all add: HelmValuesFromSource_DeepCopyInto_def Let_def)
  note h1 = copiesD [OF copies_new_assign s1]
  have a1: "addrs_ptr no_addrs v1 \<subseteq> {n0..<n1}"
    using h1(3) h1(2) by (auto simp: subset_iff)
  have "strip_HelmValuesFromSource y = strip_HelmValuesFromSource x"
    using h1(1) by (simp add: y strip_HelmValuesFromSource_def)
  moreover have "n0 \<le> n'"
    using h1(2) by (simp add: n')
  moreover have "addrs_HelmValuesFromSource y \<subseteq> {n0..<n'}"
    by (simp add: y n' addrs_HelmValuesFromSource_def a1)
  ultimately show "strip_HelmValuesFromSource y = strip_HelmValuesFromSource x \<and> n0 \<le> n' \<and> addrs_HelmValuesFromSource y \<subseteq> {n0..<n'}"
    by simp
qed

lemmas copies_make_range_HelmValuesFromSource = copies_make_range [OF copies_HelmValuesFromSource]

lemma copies_PatchOperation:
  "copies strip_PatchOperation addrs_PatchOperation PatchOperation_DeepCopyInto"
proof (rule copiesI)
  fix x n0 y n'
  assume c: "PatchOperation_DeepCopyInto x n0 = (y, n')"
  obtain v1 n1 where s1: "make_copy (Data x) n0 = (v1, n1)"
    by (cases "make_copy (Data x) n0")
  from c s1 have y: "y = x\<lparr>Data := v1\<rparr>" and n': "n' = n1"
    by (simp_all add: PatchOperation_DeepCopyInto_def Let_def)
  note h1 = copiesD [OF copies_make_copy s1]
  have a1: "addrs_ptr no_addrs v1 \<subseteq> {n0..<n1}"
    using h1(3) h1(2) by (auto simp: subset_iff)
  have "strip_PatchOperation y = strip_PatchOperation x"
    using h1(1) by (simp add: y strip_PatchOperation_def)
  moreover have "n0 \<le> n'"
    using h1(2) by (simp add: n')
  moreover have "addrs_PatchOperation y \<subseteq> {n0..<n'}"
    by (simp add: y n' addrs_PatchOperation_def a1)
  ultimately show "strip_PatchOperation y = strip_PatchOperation x \<and> n0 \<le> n' \<and> addrs_PatchOperation y \<subseteq> {n0..<n'}"
    by simp
qed

lemmas copies_make_range_PatchOperation = copies_make_range [OF copies_PatchOperation]

lemma copies_SetupTask:
  "copies strip_SetupTask addrs_SetupTask SetupTask_DeepCopyInto"
proof (rule copiesI)
  fix x n0 y n'
  assume c: "SetupTask_DeepCopyInto x n0 = (y, n')"
  obtain v1 n1 where s1: "make_copy (Command x) n0 = (v1, n1)"
    by (cases "make_copy (Command x) n0")
  obtain v2 n2 where s2: "make_copy (Args x) n1 = (v2, n2)"
    by (cases "make_copy (Args x) n1")
  obtain v3 n3 where s3: "make_range library_DeepCopyInto (VolumeMounts x) n2 = (v3, n3)"
    by (cases "make_range library_DeepCopyInto (VolumeMounts x) n2")
  obtain v4 n4 where s4: "make_range HelmValue_DeepCopyInto (HelmValues x) n3 = (v4, n4)"
    by (cases "make_range HelmValue_DeepCopyInto (HelmValues x) n3")
  obtain v5 n5 where s5: "make_range HelmValuesFromSource_DeepCopyInto (HelmValuesFrom x) n4 = (v5, n5)"
    by (cases "make_range HelmValuesFromSource_DeepCopyInto (HelmValuesFrom x) n4")
  from c s1 s2 s3 s4 s5 have y: "y = x\<lparr>Command := v1, Args := v2, VolumeMounts := v3, HelmValues := v4, HelmValuesFrom := v5\<rparr>" and n': "n' = n5"
    by (simp_all add: SetupTask_DeepCopyInto_def Let_def)
  note h1 = copiesD [OF copies_make_copy s1]
  note h2 = copiesD [OF copies_make_copy s2]
  note h3 = copiesD [OF copies_make_range_library s3]
  note h4 = copiesD [OF copies_make_range_HelmValue s4]
  note h5 = copiesD [OF copies_make_range_HelmValuesFromSource s5]
  have a1: "addrs_ptr no_addrs v1 \<subseteq> {n0..<n5}"
    using h1(3) h1(2) h2(2) h3(2) h4(2) h5(2) by (auto simp: subset_iff)
  have a2: "addrs_ptr no_addrs v2 \<subseteq> {n0..<n5}"
    using h2(3) h1(2) h2(2) h3(2) h4(2) h5(2) by (auto simp: subset_iff)
  have a3: "addrs_ptr no_addrs v3 \<subseteq> {n0..<n5}"
    using h3(3) h1(2) h2(2) h3(2) h4(2) h5(2) by (auto simp: subset_iff)
  have a4: "addrs_ptr (addrs_list addrs_HelmValue) v4 \<subseteq> {n0..<n5}"
    using h4(3) h1(2) h2(2) h3(2) h4(2) h5(2) by (auto simp: subset_iff)
  have a5: "addrs_ptr (addrs_list addrs_HelmValuesFromSource) v5 \<subseteq> {n0..<n5}"
    using h5(3) h1(2) h2(2) h3(2) h4(2) h5(2) by (auto simp: subset_iff)
  have "strip_SetupTask y = strip_SetupTask x"
    using h1(1) h2(1) h3(1) h4(1) h5(1) by (simp add: y strip_SetupTask_def)
  moreover have "n0 \<le> n'"
    using h1(2) h2(2) h3(2) h4(2) h5(2) by (simp add: n')
  moreover have "addrs_SetupTask y \<subseteq> {n0..<n'}"
    by (simp add: y n' addrs_SetupTask_def a1 a2 a3 a4 a5)
  ultimately show "strip_SetupTask y = strip_SetupTask x \<and> n0 \<le> n' \<and> addrs_SetupTask y \<subseteq> {n0..<n'}"
    by simp
qed

lemmas copies_make_range_SetupTask = copies_make_range [OF copies_SetupTask]

lemma copies_TrialReadinessGate:
  "copies strip_TrialReadinessGate addrs_TrialReadinessGate TrialReadinessGate_DeepCopyInto"
proof (rule copiesI)
  fix x n0 y n'
  assume c: "TrialReadinessGate_DeepCopyInto x n0 = (y, n')"
  obtain v1 n1 where s1: "new_DeepCopyInto library_DeepCopyInto (TrialReadinessGate.Selector x) n0 = (v1, n1)"
    by (cases "new_DeepCopyInto library_DeepCopyInto (TrialReadinessGate.Selector x) n0")
  obtain v2 n2 where s2: "make_copy (TrialReadinessGate.ConditionTypes x) n1 = (v2, n2)"
    by (cases "make_copy (TrialReadinessGate.ConditionTypes x) n1")
  from c s1 s2 have y: "y = x\<lparr>TrialReadinessGate.Selector := v1, TrialReadinessGate.ConditionTypes := v2\<rparr>" and n': "n' = n2"
    by (simp_all add: TrialReadinessGate_DeepCopyInto_def Let_def)
  note h1 = copiesD [OF copies_new_library s1]
  note h2 = copiesD [OF copies_make_copy s2]
  have a1: "addrs_ptr no_addrs v1 \<subseteq> {n0..<n2}"
    using h1(3) h1(2) h2(2) by (auto simp: subset_iff)
  have a2: "addrs_ptr no_addrs v2 \<subseteq> {n0..<n2}"
    using h2(3) h1(2) h2(2) by (auto simp: subset_iff)
  have "strip_TrialReadinessGate y = strip_TrialReadinessGate x"
    using h1(1) h2(1) by (simp add: y strip_TrialReadinessGate_def)
  moreover have "n0 \<le> n'"
    using h1(2) h2(2) by (simp add: n')
  moreover have "addrs_TrialReadinessGate y \<subseteq> {n0..<n'}"
    by (simp add: y n' addrs_TrialReadinessGate_def a1 a2)
  ultimately show "strip_TrialReadinessGate y = strip_TrialReadinessGate x \<and> n0 \<le> n' \<and> addrs_TrialReadinessGate y \<subseteq> {n0..<n'}"
    by simp
qed

lemmas copies_make_range_TrialReadinessGate = copies_make_range [OF copies_TrialReadinessGate]

lemma copies_ReadinessCheck:
  "copies strip_ReadinessCheck addrs_ReadinessCheck ReadinessCheck_DeepCopyInto"
proof (rule copiesI)
  fix x n0 y n'
  assume c: "ReadinessCheck_DeepCopyInto x n0 = (y, n')"
  obtain v1 n1 where s1: "new_DeepCopyInto library_DeepCopyInto (ReadinessCheck.Selector x) n0 = (v1, n1)"
    by (cases "new_DeepCopyInto library_DeepCopyInto (ReadinessCheck.Selector x) n0")
  obtain v2 n2 where s2: "make_copy (ReadinessCheck.ConditionTypes x) n1 = (v2, n2)"
    by (cases "make_copy (ReadinessCheck.ConditionTypes x) n1")
  obtain v3 n3 where s3: "DeepCopy library_DeepCopyInto (LastCheckTime x) n2 = (v3, n3)"
    by (cases "DeepCopy library_DeepCopyInto (LastCheckTime x) n2")
  from c s1 s2 s3 have y: "y = x\<lparr>ReadinessCheck.Selector := v1, ReadinessCheck.ConditionTypes := v2, LastCheckTime := v3\<rparr>" and n': "n' = n3"
    by (simp_all add: ReadinessCheck_DeepCopyInto_def Let_def)
  note h1 = copiesD [OF copies_new_library s1]
  note h2 = copiesD [OF copies_make_copy s2]
  note h3 = copiesD [OF copies_DeepCopy_library s3]
  have a1: "addrs_ptr no_addrs v1 \<subseteq> {n0..<n3}"
    using h1(3) h1(2) h2(2) h3(2) by (auto simp: subset_iff)
  have a2: "addrs_ptr no_addrs v2 \<subseteq> {n0..<n3}"
    using h2(3) h1(2) h2(2) h3(2) by (auto simp: subset_iff)
  have a3: "addrs_ptr no_addrs v3 \<subseteq> {n0..<n3}"
    using h3(3) h1(2) h2(2) h3(2) by (auto simp: subset_iff)
  have "strip_ReadinessCheck y = strip_ReadinessCheck x"
    using h1(1) h2(1) h3(1) by (simp add: y strip_ReadinessCheck_def)
  moreover have "n0 \<le> n'"
    using h1(2) h2(2) h3(2) by (simp add: n')
  moreover have "addrs_ReadinessCheck y \<subseteq> {n0..<n'}"
    by (simp add: y n' addrs_ReadinessCheck_def a1 a2 a3)
  ultimately show "strip_ReadinessCheck y = strip_ReadinessCheck x \<and> n0 \<le> n' \<and> addrs_ReadinessCheck y \<subseteq> {n0..<n'}"
    by simp
qed

lemmas copies_make_range_ReadinessCheck = copies_make_range [OF copies_ReadinessCheck]

lemma copies_TrialSpec:
  "copies strip_TrialSpec addrs_TrialSpec TrialSpec_DeepCopyInto"
proof (rule copiesI)
  fix x n0 y n'
  assume c: "TrialSpec_DeepCopyInto x n0 = (y, n')"
  obtain v1 n1 where s1: "new_assign (ExperimentRef x) n0 = (v1, n1)"
    by (cases "new_assign (ExperimentRef x) n0")
  obtain v2 n2 where s2: "make_copy (TrialSpec.Assignments x) n1 = (v2, n2)"
    by (cases "make_copy (TrialSpec.Assignments x) n1")
  obtain v3 n3 where s3: "new_DeepCopyInto library_DeepCopyInto (TrialSpec.Selector x) n2 = (v3, n3)"
    by (cases "new_DeepCopyInto library_DeepCopyInto (TrialSpec.Selector x) n2")
  obtain v4 n4 where s4: "new_DeepCopyInto library_DeepCopyInto (Template x) n3 = (v4, n4)"
    by (cases "new_DeepCopyInto library_DeepCopyInto (Template x) n3")
  obtain v5 n5 where s5: "new_assign (StartTimeOffset x) n4 = (v5, n5)"
    by (cases "new_assign (StartTimeOffset x) n4")
  obtain v6 n6 where s6: "new_assign (ApproximateRuntime x) n5 = (v6, n6)"
    by (cases "new_assign (ApproximateRuntime x) n5")
  obtain v7 n7 where s7: "new_assign (TTLSecondsAfterFinished x) n6 = (v7, n7)"
    by (cases "new_assign (TTLSecondsAfterFinished x) n6")
  obtain v8 n8 where s8: "new_assign (TTLSecondsAfterFailure x) n7 = (v8, n8)"
    by (cases "new_assign (TTLSecondsAfterFailure x) n7")
  obtain v9 n9 where s9: "make_range TrialReadinessGate_DeepCopyInto (ReadinessGates x) n8 = (v9, n9)"
    by (cases "make_range TrialReadinessGate_DeepCopyInto (ReadinessGates x) n8")
  obtain v10 n10 where s10: "make_range PatchOperation_DeepCopyInto (PatchOperations x) n9 = (v10, n10)"
    by (cases "make_range PatchOperation_DeepCopyInto (PatchOperations x) n9")
  obtain v11 n11 where s11: "make_range ReadinessCheck_DeepCopyInto (ReadinessChecks x) n10 = (v11, n11)"
    by (cases "make_range ReadinessCheck_DeepCopyInto (ReadinessChecks x) n10")
  obtain v12 n12 where s12: "make_copy (TrialSpec.Values x) n11 = (v12, n12)"
    by (cases "make_copy (TrialSpec.Values x) n11")
  obtain v13 n13 where s13: "make_range SetupTask_DeepCopyInto (SetupTasks x) n12 = (v13, n13)"
    by (cases "make_range SetupTask_DeepCopyInto (SetupTasks x) n12")
  obtain v14 n14 where s14: "make_range library_DeepCopyInto (SetupVolumes x) n13 = (v14, n14)"
    by (cases "make_range library_DeepCopyInto (SetupVolumes x) n13")
  obtain v15 n15 where s15: "make_range library_DeepCopyInto (SetupDefaultRules x) n14 = (v15, n15)"
    by (cases "make_range library_DeepCopyInto (SetupDefaultRules x) n14")
  from c s1 s2 s3 s4 s5 s6 s7 s8 s9 s10 s11 s12 s13 s14 s15 have y: "y = x\<lparr>ExperimentRef := v1, TrialSpec.Assignments := v2, TrialSpec.Selector := v3, Template := v4, StartTimeOffset := v5, ApproximateRuntime := v6, TTLSecondsAfterFinished := v7, TTLSecondsAfterFailure := v8, ReadinessGates := v9, PatchOperations := v10, ReadinessChecks := v11, TrialSpec.Values := v12, SetupTasks := v13, SetupVolumes := v14, SetupDefaultRules := v15\<rparr>" and n': "n' = n15"
    by (simp_all add: TrialSpec_DeepCopyInto_def Let_def)
  note h1 = copiesD [OF copies_new_assign s1]
  note h2 = copiesD [OF copies_make_copy s2]
  note h3 = copiesD [OF copies_new_library s3]
  note h4 = copiesD [OF copies_new_library s4]
  note h5 = copiesD [OF copies_new_assign s5]
  note h6 = copiesD [OF copies_new_assign s6]
  note h7 = copiesD [OF copies_new_assign s7]
  note h8 = copiesD [OF copies_new_assign s8]
  note h9 = copiesD [OF copies_make_range_TrialReadinessGate s9]
  note h10 = copiesD [OF copies_make_range_PatchOperation s10]
  note h11 = copiesD [OF copies_make_range_ReadinessCheck s11]
  note h12 = copiesD [OF copies_make_copy s12]
  note h13 = copiesD [OF copies_make_range_SetupTask s13]
  note h14 = copiesD [OF copies_make_range_library s14]
  note h15 = copiesD [OF copies_make_range_library s15]
  have a1: "addrs_ptr no_addrs v1 \<subseteq> {n0..<n15}"
    using h1(3) h1(2) h2(2) h3(2) h4(2) h5(2) h6(2) h7(2) h8(2) h9(2) h10(2) h11(2) h12(2) h13(2) h14(2) h15(2) by (auto simp: subset_iff)
  have a2: "addrs_ptr no_addrs v2 \<subseteq> {n0..<n15}"
    using h2(3) h1(2) h2(2) h3(2) h4(2) h5(2) h6(2) h7(2) h8(2) h9(2) h10(2) h11(2) h12(2) h13(2) h14(2) h15(2) by (auto simp: subset_iff)
  have a3: "addrs_ptr no_addrs v3 \<subseteq> {n0..<n15}"
    using h3(3) h1(2) h2(2) h3(2) h4(2) h5(2) h6(2) h7(2) h8(2) h9(2) h10(2) h11(2) h12(2) h13(2) h14(2) h15(2) by (auto simp: subset_iff)
  have a4: "addrs_ptr no_addrs v4 \<subseteq> {n0..<n15}"
    using h4(3) h1(2) h2(2) h3(2) h4(2) h5(2) h6(2) h7(2) h8(2) h9(2) h10(2) h11(2) h12(2) h13(2) h14(2) h15(2) by (auto simp: subset_iff)
  have a5: "addrs_ptr no_addrs v5 \<subseteq> {n0..<n15}"
    using h5(3) h1(2) h2(2) h3(2) h4(2) h5(2) h6(2) h7(2) h8(2) h9(2) h10(2) h11(2) h12(2) h13(2) h14(2) h15(2) by (auto simp: subset_iff)
  have a6: "addrs_ptr no_addrs v6 \<subseteq> {n0..<n15}"
    using h6(3) h1(2) h2(2) h3(2) h4(2) h5(2) h6(2) h7(2) h8(2) h9(2) h10(2) h11(2) h12(2) h13(2) h14(2) h15(2) by (auto simp: subset_iff)
  have a7: "addrs_ptr no_addrs v7 \<subseteq> {n0..<n15}"
    using h7(3) h1(2) h2(2) h3(2) h4(2) h5(2) h6(2) h7(2) h8(2) h9(2) h10(2) h11(2) h12(2) h13(2) h14(2) h15(2) by (auto simp: subset_iff)
  have a8: "addrs_ptr no_addrs v8 \<subseteq> {n0..<n15}"
    using h8(3) h1(2) h2(2) h3(2) h4(2) h5(2) h6(2) h7(2) h8(2) h9(2) h10(2) h11(2) h12(2) h13(2) h14(2) h15(2) by (auto simp: subset_iff)
  have a9: "addrs_ptr (addrs_list addrs_TrialReadinessGate) v9 \<subseteq> {n0..<n15}"
    using h9(3) h1(2) h2(2) h3(2) h4(2) h5(2) h6(2) h7(2) h8(2) h9(2) h10(2) h11(2) h12(2) h13(2) h14(2) h15(2) by (auto simp: subset_iff)
  have a10: "addrs_ptr (addrs_list addrs_PatchOperation) v10 \<subseteq> {n0..<n15}"
    using h10(3) h1(2) h2(2) h3(2) h4(2) h5(2) h6(2) h7(2) h8(2) h9(2) h10(2) h11(2) h12(2) h13(2) h14(2) h15(2) by (auto simp: subset_iff)
  have a11: "addrs_ptr (addrs_list addrs_ReadinessCheck) v11 \<subseteq> {n0..<n15}"
    using h11(3) h1(2) h2(2) h3(2) h4(2) h5(2) h6(2) h7(2) h8(2) h9(2) h10(2) h11(2) h12(2) h13(2) h14(2) h15(2) by (auto simp: subset_iff)
  have a12: "addrs_ptr no_addrs v12 \<subseteq> {n0..<n15}"
    using h12(3) h1(2) h2(2) h3(2) h4(2) h5(2) h6(2) h7(2) h8(2) h9(2) h10(2) h11(2) h12(2) h13(2) h14(2) h15(2) by (auto simp: subset_iff)
  have a13: "addrs_ptr (addrs_list addrs_SetupTask) v13 \<subseteq> {n0..<n15}"
    using h13(3) h1(2) h2(2) h3(2) h4(2) h5(2) h6(2) h7(2) h8(2) h9(2) h10(2) h11(2) h12(2) h13(2) h14(2) h15(2) by (auto simp: subset_iff)
  have a14: "addrs_ptr no_addrs v14 \<subseteq> {n0..<n15}"
    using h14(3) h1(2) h2(2) h3(2) h4(2) h5(2) h6(2) h7(2) h8(2) h9(2) h10(2) h11(2) h12(2) h13(2) h14(2) h15(2) by (auto simp: subset_iff)
  have a15: "addrs_ptr no_addrs v15 \<subseteq> {n0..<n15}"
    using h15(3) h1(2) h2(2) h3(2) h4(2) h5(2) h6(2) h7(2) h8(2) h9(2) h10(2) h11(2) h12(2) h13(2) h14(2) h15(2) by (auto simp: subset_iff)
  have "strip_TrialSpec y = strip_TrialSpec x"
    using h1(1) h2(1) h3(1) h4(1) h5(1) h6(1) h7(1) h8(1) h9(1) h10(1) h11(1) h12(1) h13(1) h14(1) h15(1) by (simp add: y strip_TrialSpec_def)
  moreover have "n0 \<le> n'"
    using h1(2) h2(2) h3(2) h4(2) h5(2) h6(2) h7(2) h8(2) h9(2) h10(2) h11(2) h12(2) h13(2) h14(2) h15(2) by (simp add: n')
  moreover have "addrs_TrialSpec y \<subseteq> {n0..<n'}"
    by (simp add: y n' addrs_TrialSpec_def a1 a2 a3 a4 a5 a6 a7 a8 a9 a10 a11 a12 a13 a14 a15)
  ultimately show "strip_TrialSpec y = strip_TrialSpec x \<and> n0 \<le> n' \<and> addrs_TrialSpec y \<subseteq> {n0..<n'}"
    by simp
qed

lemma copies_TrialCondition: "copies id no_addrs TrialCondition_DeepCopyInto"
  by (simp add: copies_def TrialCondition_DeepCopyInto_def library_DeepCopyInto_def no_addrs_def)

lemmas copies_make_range_TrialCondition = copies_make_range_plain [OF copies_TrialCondition]

lemma copies_TrialStatus:
  "copies strip_TrialStatus addrs_TrialStatus TrialStatus_DeepCopyInto"
proof (rule copiesI)
  fix x n0 y n'
  assume c: "TrialStatus_DeepCopyInto x n0 = (y, n')"
  obtain v1 n1 where s1: "DeepCopy library_DeepCopyInto (StartTime x) n0 = (v1, n1)"
    by (cases "DeepCopy library_DeepCopyInto (StartTime x) n0")
  obtain v2 n2 where s2: "DeepCopy library_DeepCopyInto (CompletionTime x) n1 = (v2, n2)"
    by (cases "DeepCopy library_DeepCopyInto (CompletionTime x) n1")
  obtain v3 n3 where s3: "make_range TrialCondition_DeepCopyInto (Conditions x) n2 = (v3, n3)"
    by (cases "make_range TrialCondition_DeepCopyInto (Conditions x) n2")
  from c s1 s2 s3 have y: "y = x\<lparr>StartTime := v1, CompletionTime := v2, Conditions := v3\<rparr>" and n': "n' = n3"
    by (simp_all add: TrialStatus_DeepCopyInto_def Let_def)
  note h1 = copiesD [OF copies_DeepCopy_library s1]
  note h2 = copiesD [OF copies_DeepCopy_library s2]
  note h3 = copiesD [OF copies_make_range_TrialCondition s3]
  have a1: "addrs_ptr no_addrs v1 \<subseteq> {n0..<n3}"
    using h1(3) h1(2) h2(2) h3(2) by (auto simp: subset_iff)
  have a2: "addrs_ptr no_addrs v2 \<subseteq> {n0..<n3}"
    using h2(3) h1(2) h2(2) h3(2) by (auto simp: subset_iff)
  have a3: "addrs_ptr no_addrs v3 \<subseteq> {n0..<n3}"
    using h3(3) h1(2) h2(2) h3(2) by (auto simp: subset_iff)
  have "strip_TrialStatus y = strip_TrialStatus x"
    using h1(1) h2(1) h3(1) by (simp add: y strip_TrialStatus_def)
  moreover have "n0 \<le> n'"
    using h1(2) h2(2) h3(2) by (simp add: n')
  moreover have "addrs_TrialStatus y \<subseteq> {n0..<n'}"
    by (simp add: y n' addrs_TrialStatus_def a1 a2 a3)
  ultimately show "strip_TrialStatus y = strip_TrialStatus x \<and> n0 \<le> n' \<and> addrs_TrialStatus y \<subseteq> {n0..<n'}"
    by simp
qed

lemma copies_Trial:
  "copies strip_Trial addrs_Trial Trial_DeepCopyInto"
proof (rule copiesI)
  fix x n0 y n'
  assume c: "Trial_DeepCopyInto x n0 = (y, n')"
  obtain v1 n1 where s1: "library_DeepCopyInto (ObjectMeta x) n0 = (v1, n1)"
    by (cases "library_DeepCopyInto (ObjectMeta x) n0")
  obtain v2 n2 where s2: "TrialSpec_DeepCopyInto (Spec x) n1 = (v2, n2)"
    by (cases "TrialSpec_DeepCopyInto (Spec x) n1")
  obtain v3 n3 where s3: "TrialStatus_DeepCopyInto (Trial.Status x) n2 = (v3, n3)"
    by (cases "TrialStatus_DeepCopyInto (Trial.Status x) n2")
  from c s1 s2 s3 have y: "y = x\<lparr>ObjectMeta := v1, Spec := v2, Trial.Status := v3\<rparr>" and n': "n' = n3"
    by (simp_all add: Trial_DeepCopyInto_def Let_def)
  note h1 = copiesD [OF copies_library s1]
  note h2 = copiesD [OF copies_TrialSpec s2]
  note h3 = copiesD [OF copies_TrialStatus s3]
  have a1: "no_addrs v1 \<subseteq> {n0..<n3}"
    using h1(3) h1(2) h2(2) h3(2) by (auto simp: subset_iff)
  have a2: "addrs_TrialSpec v2 \<subseteq> {n0..<n3}"
    using h2(3) h1(2) h2(2) h3(2) by (auto simp: subset_iff)
  have a3: "addrs_TrialStatus v3 \<subseteq> {n0..<n3}"
    using h3(3) h1(2) h2(2) h3(2) by (auto simp: subset_iff)
  have "strip_Trial y = strip_Trial x"
    using h1(1) h2(1) h3(1) by (simp add: y strip_Trial_def)
  moreover have "n0 \<le> n'"
    using h1(2) h2(2) h3(2) by (simp add: n')
  moreover have "addrs_Trial y \<subseteq> {n0..<n'}"
    by (simp add: y n' addrs_Trial_def a1 a2 a3)
  ultimately show "strip_Trial y = strip_Trial x \<and> n0 \<le> n' \<and> addrs_Trial y \<subseteq> {n0..<n'}"
    by simp
qed


lemma poke_elsewhere: "a \<notin> addrs_ptr A p \<Longrightarrow> poke a w p = p"
  by (cases p) simp_all

lemma poke_Data_elsewhere:
  assumes "a \<notin> addrs_ptr (addrs_list addrs_PatchOperation) ps"
  shows "map_ptr (map (\<lambda>p. p\<lparr>Data := poke a w (Data p)\<rparr>)) ps = ps"
proof (cases ps)
  case nil
  then show ?thesis by simp
next
  case (Ptr b xs)
  with assms have "\<forall>p \<in> set xs. a \<notin> addrs_ptr no_addrs (Data p)"
    by (auto simp: addrs_list_def addrs_PatchOperation_def)
  then have "\<forall>p \<in> set xs. p\<lparr>Data := poke a w (Data p)\<rparr> = p"
    using poke_elsewhere [of a no_addrs _ w] by auto
  then have "map (\<lambda>p. p\<lparr>Data := poke a w (Data p)\<rparr>) xs = xs"
    by (simp add: map_idI)
  with Ptr show ?thesis by simp
qed

lemma store_elsewhere:
  assumes "a \<notin> addrs_Trial t"
  shows "store a w t = t"
proof -
  from assms have 1: "a \<notin> addrs_ptr no_addrs (TrialSpec.Assignments (Spec t))"
    and 2: "a \<notin> addrs_ptr (addrs_list addrs_PatchOperation) (PatchOperations (Spec t))"
    and 3: "a \<notin> addrs_ptr no_addrs (TrialSpec.Values (Spec t))"
    and 4: "a \<notin> addrs_ptr (addrs_list addrs_SetupTask) (SetupTasks (Spec t))"
    and 5: "a \<notin> addrs_ptr no_addrs (Conditions (Trial.Status t))"
    by (simp_all add: addrs_Trial_def addrs_TrialSpec_def addrs_TrialStatus_def)
  show ?thesis
  proof (cases w)
    case (WriteData i b)
    then show ?thesis by (simp add: store_def poke_Data_elsewhere [OF 2])
  qed (simp_all add: store_def poke_elsewhere [OF 1] poke_elsewhere [OF 2]
       poke_elsewhere [OF 3] poke_elsewhere [OF 4] poke_elsewhere [OF 5])
qed

lemmas deep_copy_defs = Trial_DeepCopy_def DeepCopy_def Trial_DeepCopyInto_def
  TrialSpec_DeepCopyInto_def TrialStatus_DeepCopyInto_def SetupTask_DeepCopyInto_def
  PatchOperation_DeepCopyInto_def HelmValue_DeepCopyInto_def HelmValueSource_DeepCopyInto_def
  HelmValuesFromSource_DeepCopyInto_def TrialCondition_DeepCopyInto_def
  library_DeepCopyInto_def new_DeepCopyInto_def new_assign_def make_range_def make_copy_def
  assign_def

lemmas addrs_defs = addrs_Trial_def addrs_TrialSpec_def addrs_TrialStatus_def
  addrs_SetupTask_def addrs_PatchOperation_def addrs_HelmValue_def addrs_HelmValueSource_def
  addrs_HelmValuesFromSource_def addrs_list_def no_addrs_def

lemmas strip_defs = strip_Trial_def strip_TrialSpec_def strip_TrialStatus_def
  strip_SetupTask_def strip_PatchOperation_def strip_HelmValue_def strip_HelmValueSource_def
  strip_HelmValuesFromSource_def

subsection \<open>Deep copy of a trial\<close>

text \<open>
  C4: for a trial \<open>t\<close> at address \<open>a\<close>, all of whose memory was allocated before the call,
  \<^verbatim>\<open>DeepCopy\<close> returns a new trial that is structurally equal to \<open>t\<close> (equal up to
  addresses) and reaches no address that \<open>t\<close> reaches: every pointer and every slice of the
  copy, at any depth, points to memory allocated by the call. Hence a store through any
  address of the copy, into the assignments, the patch operations, the bytes of their
  data, the values, the setup tasks or the conditions, leaves \<open>t\<close> as it was. (Memory
  owned by values of the Kubernetes libraries is copied by the libraries and is not part
  of the statement.)
\<close>

theorem Trial_DeepCopy_separate:
  assumes "addrs_ptr addrs_Trial (Ptr a t) \<subseteq> {..<n}"
    and "Trial_DeepCopy (Ptr a t) n = (out, n')"
  shows "out \<noteq> nil \<and>
         strip_ptr strip_Trial out = strip_ptr strip_Trial (Ptr a t) \<and>
         addrs_ptr addrs_Trial out \<inter> addrs_ptr addrs_Trial (Ptr a t) = {} \<and>
         (\<forall>b w. b \<in> addrs_ptr addrs_Trial out \<longrightarrow> store b w t = t)"
proof -
  from assms(2) have c: "DeepCopy Trial_DeepCopyInto (Ptr a t) n = (out, n')"
    by (simp add: Trial_DeepCopy_def)
  note h = copiesD [OF copies_DeepCopy [OF copies_Trial] c]
  from c have "out \<noteq> nil"
    by (auto simp: DeepCopy_def split: prod.splits)
  moreover have disj: "addrs_ptr addrs_Trial out \<inter> addrs_ptr addrs_Trial (Ptr a t) = {}"
  proof -
    have "{n..<n'} \<inter> {..<n} = {}" by auto
    with h(3) assms(1) show ?thesis by blast
  qed
  moreover have "\<forall>b w. b \<in> addrs_ptr addrs_Trial out \<longrightarrow> store b w t = t"
  proof (intro allI impI)
    fix b w
    assume "b \<in> addrs_ptr addrs_Trial out"
    with disj have "b \<notin> addrs_Trial t" by auto
    then show "store b w t = t" by (rule store_elsewhere)
  qed
  ultimately show ?thesis using h(1) by simp
qed

theorem Trial_DeepCopy_separate_witness:
  "addrs_ptr addrs_Trial (Ptr 0 example_trial) \<subseteq> {..<10} \<and>
   Trial_DeepCopy (Ptr 0 example_trial) 10
     = (Ptr 10 (example_trial_at [11, 12, 13, 14, 15, 16, 17, 18, 19]), 20) \<and>
   strip_ptr strip_Trial (Ptr 10 (example_trial_at [11, 12, 13, 14, 15, 16, 17, 18, 19]))
     = strip_ptr strip_Trial (Ptr 0 example_trial) \<and>
   addrs_ptr addrs_Trial (Ptr 10 (example_trial_at [11, 12, 13, 14, 15, 16, 17, 18, 19]))
     \<inter> addrs_ptr addrs_Trial (Ptr 0 example_trial) = {} \<and>
   store 13 (WriteData 0 91) example_trial = example_trial"
proof -
  have 1: "addrs_ptr addrs_Trial (Ptr 0 example_trial) \<subseteq> {..<10}"
    by (simp add: example_trial_def example_trial_at_def addrs_defs)
  have 2: "Trial_DeepCopy (Ptr 0 example_trial) 10
     = (Ptr 10 (example_trial_at [11, 12, 13, 14, 15, 16, 17, 18, 19]), 20)"
    by (simp add: example_trial_def example_trial_at_def deep_copy_defs)
  have 3: "13 \<in> addrs_ptr addrs_Trial (Ptr 10 (example_trial_at [11, 12, 13, 14, 15, 16, 17, 18, 19]))"
    by (simp add: example_trial_at_def addrs_defs)
  from Trial_DeepCopy_separate [OF 1 2] 1 2 3 show ?thesis
    by blast
qed

text \<open>
  C10: \<^verbatim>\<open>DeepCopy\<close> on a nil receiver returns nil and allocates nothing, whatever the
  \<^verbatim>\<open>DeepCopyInto\<close> of the type is, so for every generated type; in particular for \<^verbatim>\<open>Trial\<close>
  and for \<^verbatim>\<open>Value\<close>.
\<close>

theorem DeepCopy_nil:
  "DeepCopy DeepCopyInto nil n = (nil, n) \<and> Trial_DeepCopy nil n = (nil, n) \<and>
   Value_DeepCopy nil n = (nil, n)"
  by (simp add: DeepCopy_def Trial_DeepCopy_def Value_DeepCopy_def)

section \<open>Properties of the trial lifecycle\<close>

lemmas lifecycle_eval = step_def IsFinished_def resolved_def applyPatch_def countDown_def
  exhausts_def counters_def fail_def complete_def warn_def conclude_def newCondition_def
  newTrial_def captureMetric_def recordCapture_def attemptOf_def pendingValue_def
  TrialComplete_def TrialFailed_def ConditionTrue_def ConditionFalse_def
  MetricLocal_def MetricPrometheus_def MetricJSONPath_def not_increased_def

subsection \<open>The scenarios of the spec\<close>

text \<open>
  The model goes through the scenarios the spec gives. With one local metric, no patch
  and no setup task the trial completes, no retry is used and the one value has its
  counter at 0; when readiness times out on every poll the trial fails with patch
  operations and values still empty.
\<close>

lemma scenario_completes:
  "run scenario_controller scenario_events
     (newTrial scenario_controller [\<lparr>Assignment.Name = ''replicas'', Assignment.Value = 3\<rparr>] [])
   = \<lparr>phase = Complete,
      assignments = [\<lparr>Assignment.Name = ''replicas'', Assignment.Value = 3\<rparr>],
      patchOperations = [],
      metricValues = [\<lparr>Value.Name = ''duration'', Value.Value = ''12.5'', Error = [],
                        Value.AttemptsRemaining = 0\<rparr>],
      setupTasks = [],
      conditions = [newCondition TrialComplete ConditionTrue example_time [] []],
      pollsRemaining = 5, fatal = None\<rparr>"
  by (simp add: scenario_controller_def scenario_events_def example_controller_def
      duration_metric_def lifecycle_eval)

lemma scenario_readiness_timeout:
  "run scenario_controller
     (map (Pair example_time)
        ([Admit [], Reconcile, Reconcile] @ replicate 5 (ReadinessPolled TimedOut)))
     (newTrial scenario_controller [\<lparr>Assignment.Name = ''replicas'', Assignment.Value = 3\<rparr>] [])
   = \<lparr>phase = Failed,
      assignments = [\<lparr>Assignment.Name = ''replicas'', Assignment.Value = 3\<rparr>],
      patchOperations = [], metricValues = [], setupTasks = [],
      conditions = [newCondition TrialFailed ConditionTrue example_time ''ReadinessTimeout''
                      ''readiness polls exhausted''],
      pollsRemaining = 1, fatal = None\<rparr>"
  by (simp add: scenario_controller_def example_controller_def lifecycle_eval
      numeral_eq_Suc)

subsection \<open>Finished trials\<close>

lemmas write_defs = fail_def complete_def warn_def conclude_def

lemma IsFinished_append: "IsFinished cs \<Longrightarrow> IsFinished (cs @ ds)"
  by (simp add: IsFinished_def list_ex_iff) blast

lemma step_finished:
  assumes "IsFinished (conditions s)"
  shows "assignments (step c now e s) = assignments s"
    and "patchOperations (step c now e s) = patchOperations s"
    and "metricValues (step c now e s) = metricValues s"
    and "setupTasks (step c now e s) = setupTasks s"
    and "prefix (conditions s) (conditions (step c now e s))"
  using assms by (simp_all add: step_def warn_def split: event.split)

lemma step_finished_still:
  assumes "IsFinished (conditions s)"
  shows "IsFinished (conditions (step c now e s))"
proof -
  from step_finished(5) [OF assms, of c now e] obtain ds
    where "conditions (step c now e s) = conditions s @ ds"
    unfolding prefix_def by blast
  with assms show ?thesis by (simp add: IsFinished_append)
qed

text \<open>
  C2: once a condition of type \<^verbatim>\<open>Complete\<close> or \<^verbatim>\<open>Failed\<close> has status \<^verbatim>\<open>True\<close>, whatever the
  controller observes afterwards leaves the assignments, the patch operations, the values
  and the setup tasks as they are, and the conditions only grow at their end.
\<close>

theorem finished_trial_is_frozen:
  assumes "IsFinished (conditions s)"
  shows "assignments (run c es s) = assignments s \<and>
         patchOperations (run c es s) = patchOperations s \<and>
         metricValues (run c es s) = metricValues s \<and>
         setupTasks (run c es s) = setupTasks s \<and>
         prefix (conditions s) (conditions (run c es s))"
  using assms
proof (induction es arbitrary: s)
  case Nil
  then show ?case by simp
next
  case (Cons te es)
  let ?s = "step c (fst te) (snd te) s"
  note fr = step_finished [OF Cons.prems, of c "fst te" "snd te"]
  have "IsFinished (conditions ?s)"
    by (rule step_finished_still [OF Cons.prems])
  from Cons.IH [OF this] fr show ?case
    by (auto intro: prefix_order.trans)
qed


theorem finished_trial_is_frozen_witness:
  "IsFinished (conditions aborted_trial) \<and>
   run example_controller
     [(example_time, PatchAttempt 0 FailedTransient), (example_time, Reconcile),
      (example_time, SetupDeleted False)] aborted_trial
   = aborted_trial\<lparr>conditions := conditions aborted_trial @
       [newCondition TrialFailed ConditionFalse example_time ''SetupDeleteFailed''
          ''setup task deletion failed'']\<rparr>"
  using finished_trial_is_frozen [where s = aborted_trial and c = example_controller
      and es = "[(example_time, PatchAttempt 0 FailedTransient), (example_time, Reconcile),
      (example_time, SetupDeleted False)]"]
  by (simp add: aborted_trial_def example_controller_def example_patch_def lifecycle_eval)



subsection \<open>Attempt counters\<close>

lemma countDown_bounds: "0 \<le> n \<Longrightarrow> 0 \<le> countDown a n \<and> countDown a n \<le> n"
  by (cases a) (simp_all add: countDown_def)

lemma countDown_success: "0 \<le> n \<Longrightarrow> countDown Succeeded n = 0"
  by (simp add: countDown_def)

lemma not_increased_refl: "not_increased xs xs"
  by (simp add: not_increased_def list_all2_conv_all_nth)

lemma not_increased_Nil: "not_increased [] ys"
  by (simp add: not_increased_def)

lemma not_increased_trans:
  assumes "not_increased xs ys" and "not_increased ys zs"
  shows "not_increased xs zs"
proof -
  from assms have l: "length xs \<le> length ys" "length ys \<le> length zs"
    and 1: "\<forall>i<length xs. ys ! i \<le> xs ! i" and 2: "\<forall>i<length ys. zs ! i \<le> ys ! i"
    by (simp_all add: not_increased_def list_all2_conv_all_nth)
  have "\<forall>i<length xs. zs ! i \<le> xs ! i"
  proof (intro allI impI)
    fix i assume i: "i < length xs"
    with l have "i < length ys" by simp
    with 2 have "zs ! i \<le> ys ! i" by simp
    also from 1 i have "ys ! i \<le> xs ! i" by simp
    finally show "zs ! i \<le> xs ! i" .
  qed
  with l show ?thesis
    by (simp add: not_increased_def list_all2_conv_all_nth)
qed

lemma not_increased_update:
  assumes "i < length xs" and "y \<le> xs ! i"
  shows "not_increased xs (xs[i := y])"
  using assms unfolding not_increased_def list_all2_conv_all_nth
  by (auto simp: nth_list_update)

lemma nonneg_update: "nonneg xs \<Longrightarrow> 0 \<le> y \<Longrightarrow> nonneg (xs[i := y])"
  unfolding nonneg_def list_all_iff by (auto dest: set_update_subset_insert [THEN subsetD])

lemma nonneg_nth: "nonneg xs \<Longrightarrow> i < length xs \<Longrightarrow> 0 \<le> xs ! i"
  by (simp add: nonneg_def list_all_length)

lemma patch_counters_update:
  "map PatchOperation.AttemptsRemaining (ops[i := applyPatch a (ops ! i)])
     = (map PatchOperation.AttemptsRemaining ops)
         [i := countDown a (PatchOperation.AttemptsRemaining (ops ! i))]"
  by (simp add: map_update applyPatch_def)

lemma value_counters_update:
  "map Value.AttemptsRemaining (vs[i := recordCapture cap (vs ! i)])
     = (map Value.AttemptsRemaining vs)
         [i := countDown (attemptOf cap) (Value.AttemptsRemaining (vs ! i))]"
  by (simp add: map_update recordCapture_def Let_def split: capture.split)

lemma nonneg_resolved: "nonneg (map (PatchOperation.AttemptsRemaining \<circ> resolved b) rs)"
  by (auto simp: nonneg_def list_all_iff resolved_def)

lemma nonneg_pending: "nonneg (map (Value.AttemptsRemaining \<circ> pendingValue b) ms)"
  by (auto simp: nonneg_def list_all_iff pendingValue_def)


lemma counters_simps:
  "fst (counters s) = map PatchOperation.AttemptsRemaining (patchOperations s)"
  "snd (counters s) = map Value.AttemptsRemaining (metricValues s)"
  by (simp_all add: counters_def)

lemma patch_attempt_ok:
  assumes "nonneg (map PatchOperation.AttemptsRemaining ops)" and "i < length ops"
  shows "nonneg (map PatchOperation.AttemptsRemaining (ops[i := applyPatch a (ops ! i)]))"
    and "not_increased (map PatchOperation.AttemptsRemaining ops)
           (map PatchOperation.AttemptsRemaining (ops[i := applyPatch a (ops ! i)]))"
proof -
  from assms have n: "0 \<le> PatchOperation.AttemptsRemaining (ops ! i)"
    using nonneg_nth [of "map PatchOperation.AttemptsRemaining ops" i] by simp
  note b = countDown_bounds [OF n, of a]
  from assms(1) b show "nonneg (map PatchOperation.AttemptsRemaining (ops[i := applyPatch a (ops ! i)]))"
    by (simp add: patch_counters_update nonneg_update)
  from assms(2) b show "not_increased (map PatchOperation.AttemptsRemaining ops)
           (map PatchOperation.AttemptsRemaining (ops[i := applyPatch a (ops ! i)]))"
    by (simp add: patch_counters_update not_increased_update)
qed

lemma metric_attempt_ok:
  assumes "nonneg (map Value.AttemptsRemaining vs)" and "i < length vs"
  shows "nonneg (map Value.AttemptsRemaining (vs[i := recordCapture cap (vs ! i)]))"
    and "not_increased (map Value.AttemptsRemaining vs)
           (map Value.AttemptsRemaining (vs[i := recordCapture cap (vs ! i)]))"
proof -
  from assms have n: "0 \<le> Value.AttemptsRemaining (vs ! i)"
    using nonneg_nth [of "map Value.AttemptsRemaining vs" i] by simp
  note b = countDown_bounds [OF n, of "attemptOf cap"]
  from assms(1) b show "nonneg (map Value.AttemptsRemaining (vs[i := recordCapture cap (vs ! i)]))"
    by (simp add: value_counters_update nonneg_update)
  from assms(2) b show "not_increased (map Value.AttemptsRemaining vs)
           (map Value.AttemptsRemaining (vs[i := recordCapture cap (vs ! i)]))"
    by (simp add: value_counters_update not_increased_update)
qed

lemma nonneg_Nil: "nonneg []"
  by (simp add: nonneg_def)

lemmas step_simps = nonneg_Nil counters_simps wellCounted_def beforeMeasuring_def write_defs Let_def
  not_increased_refl not_increased_Nil nonneg_resolved nonneg_pending
  patch_attempt_ok metric_attempt_ok

lemma step_counters:
  assumes "wellCounted s"
  shows "wellCounted (step c now e s) \<and>
         not_increased (fst (counters s)) (fst (counters (step c now e s))) \<and>
         not_increased (snd (counters s)) (snd (counters (step c now e s)))"
proof (cases "IsFinished (conditions s)")
  case True
  with assms show ?thesis
    by (cases e) (simp_all add: step_def step_simps)
next
  case False
  show ?thesis
  proof (cases "phase s")
    case Pending
    with assms False show ?thesis
      by (cases e) (simp_all add: step_def step_simps)
  next
    case Patching
    with assms False show ?thesis
      by (cases e) (simp_all add: step_def step_simps)
  next
    case AwaitingSetup
    with assms False show ?thesis
      by (cases e) (simp_all add: step_def step_simps)
  next
    case AwaitingReady
    with assms False show ?thesis
      by (cases e) (simp_all add: step_def step_simps split: readiness.split)
  next
    case Running
    with assms False show ?thesis
      by (cases e) (simp_all add: step_def step_simps)
  next
    case Measuring
    with assms False show ?thesis
      by (cases e) (simp_all add: step_def step_simps split: option.split)
  next
    case SettingDown
    with assms False show ?thesis
      by (cases e) (simp_all add: step_def step_simps split: option.split)
  next
    case Complete
    with assms False show ?thesis
      by (simp add: step_def step_simps)
  next
    case Failed
    with assms False show ?thesis
      by (simp add: step_def step_simps)
  qed
qed


lemma run_wellCounted: "wellCounted s \<Longrightarrow> wellCounted (run c es s)"
  by (induction es arbitrary: s) (simp_all add: step_counters)

lemma run_counters:
  assumes "wellCounted s"
  shows "not_increased (fst (counters s)) (fst (counters (run c es s))) \<and>
         not_increased (snd (counters s)) (snd (counters (run c es s)))"
  using assms
proof (induction es arbitrary: s)
  case Nil
  then show ?case by (simp add: not_increased_refl)
next
  case (Cons te es)
  let ?s = "step c (fst te) (snd te) s"
  note st = step_counters [OF Cons.prems, of c "fst te" "snd te"]
  from st have "wellCounted ?s" by simp
  from Cons.IH [OF this] st show ?case
    by (auto intro: not_increased_trans)
qed

lemma newTrial_wellCounted: "wellCounted (newTrial c as ts)"
  by (simp add: newTrial_def wellCounted_def counters_def nonneg_def beforeMeasuring_def)

text \<open>
  C1, as amended: along the life of a trial, from its creation on, no attempt counter of a
  patch operation or of a value ever increases, and right after an attempt at an
  operation has succeeded its counter is exactly 0. (The counter also reaches 0 without
  success, when failed attempts use it up or a failure is not retryable.)
\<close>

theorem attempts_never_increase:
  assumes "s = run c es (newTrial c as ts)" and "s' = run c es' s"
  shows "not_increased (fst (counters s)) (fst (counters s')) \<and>
         not_increased (snd (counters s)) (snd (counters s')) \<and>
         (phase s = Patching \<and> \<not> IsFinished (conditions s) \<and> i < length (patchOperations s)
            \<longrightarrow> fst (counters (step c now (PatchAttempt i Succeeded) s)) ! i = 0) \<and>
         (phase s = Measuring \<and> \<not> IsFinished (conditions s) \<and> i < length (metricValues s)
            \<and> i < length (metrics c) \<and> captureMetric c (metrics c ! i) s resp = Captured x e
            \<longrightarrow> snd (counters (step c now (MetricAttempt i resp) s)) ! i = 0)"
proof -
  have w: "wellCounted s"
    unfolding assms(1) by (rule run_wellCounted [OF newTrial_wellCounted])
  have p: "0 \<le> PatchOperation.AttemptsRemaining (patchOperations s ! i)"
    if "i < length (patchOperations s)"
    using w that nonneg_nth [of "fst (counters s)" i] by (simp add: wellCounted_def counters_simps)
  have v: "0 \<le> Value.AttemptsRemaining (metricValues s ! i)"
    if "i < length (metricValues s)"
    using w that nonneg_nth [of "snd (counters s)" i] by (simp add: wellCounted_def counters_simps)
  have "fst (counters (step c now (PatchAttempt i Succeeded) s)) ! i = 0"
    if "phase s = Patching" "\<not> IsFinished (conditions s)" "i < length (patchOperations s)"
    using that p by (simp add: step_def counters_simps exhausts_def patch_counters_update
        countDown_success)
  moreover have "snd (counters (step c now (MetricAttempt i resp) s)) ! i = 0"
    if "phase s = Measuring" "\<not> IsFinished (conditions s)" "i < length (metricValues s)"
      "i < length (metrics c)" "captureMetric c (metrics c ! i) s resp = Captured x e"
    using that v by (simp add: step_def counters_simps exhausts_def attemptOf_def
        value_counters_update countDown_success Let_def split: option.split)
  ultimately show ?thesis
    using run_counters [OF w, of c es'] by (simp add: assms(2))
qed

theorem attempts_never_increase_witness:
  "counters (run patient_controller
      [(example_time, Admit [(example_patch, True)]),
       (example_time, PatchAttempt 0 FailedTransient)]
      (newTrial patient_controller [] [])) = ([2], []) \<and>
   counters (run patient_controller [(example_time, PatchAttempt 0 Succeeded)]
     (run patient_controller
        [(example_time, Admit [(example_patch, True)]),
         (example_time, PatchAttempt 0 FailedTransient)]
        (newTrial patient_controller [] []))) = ([0], []) \<and>
   not_increased [2] [0]"
  using attempts_never_increase [where c = patient_controller
      and es = "[(example_time, Admit [(example_patch, True)]),
                 (example_time, PatchAttempt 0 FailedTransient)]"
      and es' = "[(example_time, PatchAttempt 0 Succeeded)]" and as = "[]" and ts = "[]",
      OF refl refl]
  by (simp add: patient_controller_def example_controller_def example_patch_def lifecycle_eval)

text \<open>
  C1, as stated, fails: a counter is 0 although the operation never succeeded. With one
  attempt allowed, the lone patch of a trial fails once; its counter is 0 and the trial
  has failed.
\<close>

theorem exhausted_without_success:
  "counters (run example_controller
       [(example_time, Admit [(example_patch, True)]),
        (example_time, PatchAttempt 0 FailedTransient)]
       (newTrial example_controller [] [])) = ([0], []) \<and>
   phase (run example_controller
       [(example_time, Admit [(example_patch, True)]),
        (example_time, PatchAttempt 0 FailedTransient)]
       (newTrial example_controller [] [])) = Failed"
  by (simp add: example_controller_def newTrial_def step_def IsFinished_def resolved_def
      example_patch_def applyPatch_def countDown_def exhausts_def counters_def fail_def)

subsection \<open>Metrics\<close>

lemma IsFinished_simps:
  "IsFinished (cs @ ds) = (IsFinished cs \<or> IsFinished ds)"
  "IsFinished (c # cs) =
     (((TrialCondition.Type c = TrialComplete \<or> TrialCondition.Type c = TrialFailed)
        \<and> TrialCondition.Status c = ConditionTrue) \<or> IsFinished cs)"
  "IsFinished [] = False"
  by (auto simp: IsFinished_def list_ex_iff)

lemma HasFailed_simps:
  "HasFailed (cs @ ds) = (HasFailed cs \<or> HasFailed ds)"
  "HasFailed (c # cs) =
     ((TrialCondition.Type c = TrialFailed \<and> TrialCondition.Status c = ConditionTrue)
        \<or> HasFailed cs)"
  "HasFailed [] = False"
  by (auto simp: HasFailed_def list_ex_iff)

lemma newCondition_sel:
  "TrialCondition.Type (newCondition t st now r m) = t"
  "TrialCondition.Status (newCondition t st now r m) = st"
  by (simp_all add: newCondition_def)

lemma status_distinct: "ConditionFalse \<noteq> ConditionTrue"
  by (simp add: ConditionFalse_def ConditionTrue_def)

lemmas doomed_simps = doomed_def write_defs IsFinished_simps HasFailed_simps newCondition_sel
  status_distinct Let_def

lemma step_doomed:
  assumes "doomed s"
  shows "doomed (step c now e s)"
proof (cases "IsFinished (conditions s)")
  case True
  with assms show ?thesis
    by (cases e) (simp_all add: step_def doomed_simps)
next
  case False
  with assms have ph: "phase s = Measuring \<or> phase s = SettingDown" and f: "fatal s \<noteq> None"
    by (simp_all add: doomed_def)
  from f obtain r m where fs: "fatal s = Some (r, m)" by (cases "fatal s") auto
  from ph show ?thesis
  proof
    assume "phase s = Measuring"
    with False fs show ?thesis
      by (cases e) (simp_all add: step_def doomed_simps)
  next
    assume "phase s = SettingDown"
    with False fs show ?thesis
      by (cases e) (simp_all add: step_def doomed_simps)
  qed
qed

lemma run_doomed: "doomed s \<Longrightarrow> doomed (run c es s)"
  by (induction es arbitrary: s) (simp_all add: step_doomed)

lemma prometheus_not_local: "MetricPrometheus \<noteq> MetricLocal"
  by (simp add: MetricPrometheus_def MetricLocal_def)

lemma many_samples: "1 < length ps \<Longrightarrow> (case ps of [p] \<Rightarrow> Captured (fst p) (snd p) | _ \<Rightarrow> DataShape) = DataShape"
  by (cases ps) (auto split: list.split)



lemma step_metric_attempt:
  assumes "\<not> IsFinished (conditions s)" and "phase s = Measuring"
    and "i < length (metricValues s)" and "i < length (metrics c)"
  shows "step c now (MetricAttempt i resp) s =
     (let v = metricValues s ! i;
          cap = captureMetric c (metrics c ! i) s resp;
          s' = s\<lparr>metricValues := (metricValues s)[i := recordCapture cap v]\<rparr>
      in if exhausts (attemptOf cap) (Value.AttemptsRemaining v)
         then (case fatal s' of
                 None \<Rightarrow> s'\<lparr>fatal := Some (''MetricFailed'', Value.Name v)\<rparr>
               | Some f \<Rightarrow> s')
         else s')"
  using assms by (simp add: step_def)

lemma step_reconcile_measuring:
  assumes "\<not> IsFinished (conditions s)" and "phase s = Measuring"
  shows "step c now Reconcile s =
     (if list_all (\<lambda>v. Value.AttemptsRemaining v = 0) (metricValues s)
      then s\<lparr>phase := SettingDown\<rparr> else s)"
  using assms by (simp add: step_def)

lemma step_setup_deleted:
  assumes "\<not> IsFinished (conditions s)" and "phase s = SettingDown"
  shows "step c now (SetupDeleted ok) s =
     conclude now (if ok then s
                   else warn now ''SetupDeleteFailed'' ''setup task deletion failed'' s)"
  using assms by (simp add: step_def)


lemma conclude_fatal:
  assumes "fatal s = Some f"
  shows "phase (conclude now s) = Failed"
  using assms by (cases f) (simp add: conclude_def fail_def)

text \<open>
  C6: while a trial is measuring and a Prometheus metric has attempts left, a query result
  of more than one sample is a data-shape error, which is not retryable: the metric's
  counter is 0 at once and a fatal failure is on record. From there the trial cannot
  complete: whenever a later state is finished, its phase is \<^verbatim>\<open>Failed\<close> and a condition
  \<^verbatim>\<open>Failed=True\<close> is there; and once the pass is over (every counter at 0), the next
  reconcile and the deletion of the setup tasks bring the trial to \<^verbatim>\<open>Failed\<close>.
\<close>

theorem prometheus_multi_value_is_fatal:
  assumes "\<not> IsFinished (conditions s)" and "phase s = Measuring"
    and "i < length (metricValues s)" and "i < length (metrics c)"
    and "Metric.Type (metrics c ! i) = MetricPrometheus"
    and "1 < length ps"
    and "0 < Value.AttemptsRemaining (metricValues s ! i)"
  shows "captureMetric c (metrics c ! i) s (Samples ps) = DataShape \<and>
         attemptOf DataShape = FailedNonRetryable \<and>
         Value.AttemptsRemaining (metricValues (step c now (MetricAttempt i (Samples ps)) s) ! i) = 0 \<and>
         fatal (step c now (MetricAttempt i (Samples ps)) s) \<noteq> None \<and>
         (IsFinished (conditions (run c es (step c now (MetricAttempt i (Samples ps)) s)))
            \<longrightarrow> phase (run c es (step c now (MetricAttempt i (Samples ps)) s)) = Failed
              \<and> HasFailed (conditions (run c es (step c now (MetricAttempt i (Samples ps)) s)))) \<and>
         (list_all (\<lambda>v. Value.AttemptsRemaining v = 0)
              (metricValues (step c now (MetricAttempt i (Samples ps)) s))
            \<longrightarrow> phase (run c [(now', Reconcile), (now'', SetupDeleted ok)]
                   (step c now (MetricAttempt i (Samples ps)) s)) = Failed)"
proof -
  define s1 where "s1 = step c now (MetricAttempt i (Samples ps)) s"
  define s' where
    "s' = s\<lparr>metricValues := (metricValues s)[i := recordCapture DataShape (metricValues s ! i)]\<rparr>"
  have cap: "captureMetric c (metrics c ! i) s (Samples ps) = DataShape"
    using assms(5,6) by (simp add: captureMetric_def prometheus_not_local many_samples)
  have ex: "exhausts FailedNonRetryable (Value.AttemptsRemaining (metricValues s ! i))"
    using assms(7) by (simp add: exhausts_def)
  have s1_eq: "s1 = (case fatal s of
                       None \<Rightarrow> s'\<lparr>fatal := Some (''MetricFailed'', Value.Name (metricValues s ! i))\<rparr>
                     | Some f \<Rightarrow> s')"
    unfolding s1_def step_metric_attempt [OF assms(1-4)]
    using ex by (simp add: cap attemptOf_def s'_def Let_def split: option.split)
  have vals: "metricValues s1 = metricValues s'" and conds: "conditions s1 = conditions s"
    and ph: "phase s1 = Measuring" and fat: "fatal s1 \<noteq> None"
    using assms(2) by (cases "fatal s"; simp add: s1_eq s'_def)+
  have zero: "Value.AttemptsRemaining (metricValues s1 ! i) = 0"
    using assms(3,7)
    by (simp add: vals s'_def recordCapture_def attemptOf_def countDown_def)
  have un: "\<not> IsFinished (conditions s1)"
    using assms(1) by (simp add: conds)
  have d: "doomed s1"
    using fat ph un by (simp add: doomed_def)
  have fin: "phase (run c es s1) = Failed \<and> HasFailed (conditions (run c es s1))"
    if "IsFinished (conditions (run c es s1))"
    using run_doomed [OF d, of c es] that by (simp add: doomed_def)
  have go: "phase (run c [(now', Reconcile), (now'', SetupDeleted ok)] s1) = Failed"
    if over: "list_all (\<lambda>v. Value.AttemptsRemaining v = 0) (metricValues s1)"
  proof -
    let ?s2 = "s1\<lparr>phase := SettingDown\<rparr>"
    from fat obtain f where f: "fatal s1 = Some f" by auto
    have 1: "step c now' Reconcile s1 = ?s2"
      using over by (simp add: step_reconcile_measuring [OF un ph])
    have 2: "step c now'' (SetupDeleted ok) ?s2 =
        conclude now'' (if ok then ?s2
           else warn now'' ''SetupDeleteFailed'' ''setup task deletion failed'' ?s2)"
      using un by (intro step_setup_deleted) simp_all
    have "fatal (if ok then ?s2
        else warn now'' ''SetupDeleteFailed'' ''setup task deletion failed'' ?s2) = Some f"
      using f by (simp add: warn_def)
    from conclude_fatal [OF this] show ?thesis
      by (simp add: 1 2)
  qed
  from cap zero fat fin go show ?thesis
    unfolding s1_def by (simp add: attemptOf_def)
qed


theorem prometheus_multi_value_is_fatal_witness:
  "\<not> IsFinished (conditions measuring_trial) \<and> phase measuring_trial = Measuring \<and>
   1 < length (metricValues measuring_trial) \<and> 1 < length (metrics example_controller) \<and>
   Metric.Type (metrics example_controller ! 1) = MetricPrometheus \<and>
   1 < length three_points \<and>
   0 < Value.AttemptsRemaining (metricValues measuring_trial ! 1) \<and>
   captureMetric example_controller (metrics example_controller ! 1) measuring_trial
     (Samples three_points) = DataShape \<and>
   Value.AttemptsRemaining (metricValues
     (step example_controller example_time (MetricAttempt 1 (Samples three_points))
        measuring_trial) ! 1) = 0 \<and>
   phase (run example_controller [(example_time, Reconcile), (example_time, SetupDeleted True)]
     (step example_controller example_time (MetricAttempt 1 (Samples three_points))
        measuring_trial)) = Failed"
proof -
  have 1: "\<not> IsFinished (conditions measuring_trial)"
    by (simp add: measuring_trial_def IsFinished_def)
  have 2: "phase measuring_trial = Measuring"
    by (simp add: measuring_trial_def)
  have 3: "1 < length (metricValues measuring_trial)"
    by (simp add: measuring_trial_def)
  have 4: "1 < length (metrics example_controller)"
    by (simp add: example_controller_def)
  have 5: "Metric.Type (metrics example_controller ! 1) = MetricPrometheus"
    by (simp add: example_controller_def latency_metric_def)
  have 6: "1 < length three_points"
    by (simp add: three_points_def)
  have 7: "0 < Value.AttemptsRemaining (metricValues measuring_trial ! 1)"
    by (simp add: measuring_trial_def)
  note t = prometheus_multi_value_is_fatal [OF 1 2 3 4 5 6 7, where now = example_time
      and now' = example_time and now'' = example_time and ok = True and es = "[]"]
  have "metricValues (step example_controller example_time
          (MetricAttempt 1 (Samples three_points)) measuring_trial)
        = [\<lparr>Value.Name = ''duration'', Value.Value = ''12.5'', Error = [],
            Value.AttemptsRemaining = 0\<rparr>,
           \<lparr>Value.Name = ''latency'', Value.Value = [], Error = [],
            Value.AttemptsRemaining = 0\<rparr>]"
    unfolding step_metric_attempt [OF 1 2 3 4] conjunct1 [OF t]
    by (simp add: Let_def exhausts_def attemptOf_def recordCapture_def countDown_def
        measuring_trial_def)
  then have "list_all (\<lambda>v. Value.AttemptsRemaining v = 0)
      (metricValues (step example_controller example_time
          (MetricAttempt 1 (Samples three_points)) measuring_trial))"
    by simp
  with t 1 2 3 4 5 6 7 show ?thesis
    by blast
qed

text \<open>
  C7, as amended: the declared metric types are \<^verbatim>\<open>local\<close>, \<^verbatim>\<open>prometheus\<close> and \<^verbatim>\<open>jsonpath\<close>,
  and capturing a metric whose type is \<^verbatim>\<open>local\<close> does not depend on what any endpoint
  answers: it is the metric's template evaluated against the trial.
\<close>

theorem local_metric_needs_no_service:
  "MetricLocal = ''local'' \<and> MetricPrometheus = ''prometheus'' \<and> MetricJSONPath = ''jsonpath'' \<and>
   (Metric.Type m = MetricLocal \<longrightarrow>
      captureMetric c m trial resp = captureMetric c m trial resp' \<and>
      captureMetric c m trial resp
        = (case evalTemplate c (Query m) trial of Some v \<Rightarrow> Captured v [] | None \<Rightarrow> DataShape))"
  by (simp add: MetricLocal_def MetricPrometheus_def MetricJSONPath_def captureMetric_def)

theorem local_metric_needs_no_service_witness:
  "Metric.Type duration_metric = MetricLocal \<and>
   captureMetric example_controller duration_metric measuring_trial Unreachable
     = captureMetric example_controller duration_metric measuring_trial (Samples three_points) \<and>
   captureMetric example_controller duration_metric measuring_trial Unreachable
     = Captured ''12.5'' []"
proof -
  have 1: "Metric.Type duration_metric = MetricLocal"
    by (simp add: duration_metric_def)
  have 2: "evalTemplate example_controller (Query duration_metric) measuring_trial = Some ''12.5''"
    by (simp add: example_controller_def)
  from local_metric_needs_no_service [where m = duration_metric and c = example_controller
      and trial = measuring_trial and resp = Unreachable and resp' = "Samples three_points"]
    1 have "captureMetric example_controller duration_metric measuring_trial Unreachable
       = captureMetric example_controller duration_metric measuring_trial (Samples three_points)"
    and "captureMetric example_controller duration_metric measuring_trial Unreachable
       = (case evalTemplate example_controller (Query duration_metric) measuring_trial of
            Some v \<Rightarrow> Captured v [] | None \<Rightarrow> DataShape)"
    by blast+
  with 1 2 show ?thesis
    by (simp only: option.case simp_thms)
qed

text \<open>
  C7, as stated, fails: the type of a metric is a string that nothing confines to the
  three constants. A metric whose type was left out of the experiment has the empty type.
\<close>

theorem metric_type_outside_the_three:
  "Metric.Type untyped_metric \<notin> {MetricLocal, MetricPrometheus, MetricJSONPath}"
  by (simp add: untyped_metric_def MetricLocal_def MetricPrometheus_def MetricJSONPath_def)

end
